theory Spec2Isabelle
  imports Main
begin

section \<open>JavaScript strings\<close>

text \<open>
  A JavaScript string is a sequence of code units. The model uses \<^typ>\<open>string\<close>, so it
  covers the strings whose code units are below 256 (Latin-1). The helpers below are the
  built-in string operations the HR module calls: \<open>split\<close> with a one-character
  separator, \<open>join\<close>, \<open>trim\<close>, \<open>toLowerCase\<close>, \<open>includes\<close> and the two regular
  expressions of \<open>parseFilename\<close>.
\<close>

text \<open>\<open>s.split(sep)\<close>: never the empty array; \<open>''''.split('_')\<close> is \<open>['''']\<close>.\<close>

fun split_on :: "char \<Rightarrow> string \<Rightarrow> string list" where
  "split_on sep [] = [[]]"
| "split_on sep (c # cs) =
     (if c = sep then [] # split_on sep cs
      else (case split_on sep cs of [] \<Rightarrow> [[c]] | p # ps \<Rightarrow> (c # p) # ps))"

text \<open>\<open>parts.join(sep)\<close>: the empty array joins to the empty string.\<close>

fun join_with :: "char \<Rightarrow> string list \<Rightarrow> string" where
  "join_with sep [] = []"
| "join_with sep [p] = p"
| "join_with sep (p # q # ps) = p @ sep # join_with sep (q # ps)"

text \<open>
  White space removed by \<open>trim\<close>, among the code units below 256: tab, line feed,
  vertical tab, form feed, carriage return, space and no-break space.
\<close>

definition is_space :: "char \<Rightarrow> bool" where
  "is_space c = (of_char c \<in> {9, 10, 11, 12, 13, 32, 160 :: nat})"

definition trim :: "string \<Rightarrow> string" where
  "trim s = rev (dropWhile is_space (rev (dropWhile is_space s)))"

text \<open>The class \<open>\d\<close> of a regular expression without the unicode flag: \<open>0\<close> to \<open>9\<close>.\<close>

definition is_digit :: "char \<Rightarrow> bool" where
  "is_digit c = (48 \<le> (of_char c :: nat) \<and> (of_char c :: nat) \<le> 57)"

text \<open>\<open>/^\d{10}$/.test(s)\<close>: the whole string is ten digits.\<close>

definition ten_digits :: "string \<Rightarrow> bool" where
  "ten_digits s = (length s = 10 \<and> list_all is_digit s)"

text \<open>
  \<open>toLowerCase\<close> on code units below 256: \<open>A\<close> to \<open>Z\<close> and the Latin-1 capitals
  (192 to 222 without the multiplication sign 215) move up by 32.
\<close>

definition lower_char :: "char \<Rightarrow> char" where
  "lower_char c =
     (let n = (of_char c :: nat)
      in if (65 \<le> n \<and> n \<le> 90) \<or> (192 \<le> n \<and> n \<le> 222 \<and> n \<noteq> 215)
         then char_of (n + 32) else c)"

definition toLowerCase :: "string \<Rightarrow> string" where
  "toLowerCase s = map lower_char s"

text \<open>\<open>s.includes(t)\<close>: \<open>t\<close> occurs in \<open>s\<close> as a contiguous substring.\<close>

definition starts_with :: "string \<Rightarrow> string \<Rightarrow> bool" where
  "starts_with s t = (take (length t) s = t)"

fun js_includes :: "string \<Rightarrow> string \<Rightarrow> bool" where
  "js_includes [] t = (t = [])"
| "js_includes (c # cs) t = (starts_with (c # cs) t \<or> js_includes cs t)"

text \<open>
  \<open>filename.replace(/\.[^.]+$/, '''')\<close>. The expression matches at a dot that is followed,
  up to the end of the string, by one or more characters none of which is a dot; the first
  (and only possible) match is replaced by the empty string, which removes the string
  from that dot on. Without a match the string is returned as it is.
\<close>

fun strip_ext :: "string \<Rightarrow> string" where
  "strip_ext [] = []"
| "strip_ext (c # cs) =
     (if c = CHR ''.'' \<and> cs \<noteq> [] \<and> CHR ''.'' \<notin> set cs then []
      else c # strip_ext cs)"

text \<open>Decimal rendering of a number inside a template literal.\<close>

function string_of_nat :: "nat \<Rightarrow> string" where
  "string_of_nat n =
     (if n < 10 then [char_of (48 + n)]
      else string_of_nat (n div 10) @ [char_of (48 + n mod 10)])"
  by pat_completeness auto
termination
  by (relation "measure id") auto

declare string_of_nat.simps [simp del]

section \<open>Configuration\<close>

definition MAX_FILE_SIZE :: nat where
  "MAX_FILE_SIZE = 5 * 1024 * 1024"

definition ALLOWED_CV_EXTENSIONS :: "string list" where
  "ALLOWED_CV_EXTENSIONS = [''.pdf'', ''.doc'', ''.docx'']"

definition ROLE_ADMIN :: string where
  "ROLE_ADMIN = ''admin''"

definition ROUTE_LOGIN :: string where
  "ROUTE_LOGIN = ''/index.html''"

section \<open>Intake: file validation and filename parsing\<close>

text \<open>\<open>Utils.isValidFileType\<close>: the text after the last dot, lower-cased, with a dot in front.\<close>

definition isValidFileType :: "string \<Rightarrow> string list \<Rightarrow> bool" where
  "isValidFileType filename allowedExtensions =
     (let ext = CHR ''.'' # toLowerCase (last (split_on CHR ''.'' filename))
      in ext \<in> set allowedExtensions)"

definition isValidFileSize :: "nat \<Rightarrow> bool" where
  "isValidFileSize fileSize = (fileSize \<le> MAX_FILE_SIZE)"

datatype parsed = Invalid | Parsed (p_name: string) (p_mobile: string) (p_source: string)

definition isValid :: "parsed \<Rightarrow> bool" where
  "isValid p = (p \<noteq> Invalid)"

definition parseFilename :: "string \<Rightarrow> parsed" where
  "parseFilename filename =
     (let withoutExt = strip_ext filename;
          parts = split_on CHR ''_'' withoutExt
      in if length parts < 3 then Invalid
         else
           let name = trim (parts ! 0);
               mobile = trim (parts ! 1);
               source = trim (join_with CHR ''_'' (drop 2 parts))
           in if \<not> ten_digits mobile then Invalid
              else Parsed name mobile source)"

section \<open>Session context\<close>

text \<open>
  The user object is what the login response carried: a role and, per module, the
  permitted actions. The leaves are JSON values, so that \<open>=== true\<close> can be told from a
  value that is only truthy.
\<close>

datatype json = JNull | JBool bool | JNum int | JStr string

record user =
  u_name :: string
  u_role :: string
  u_permissions :: "(string \<rightharpoonup> (string \<rightharpoonup> json)) option"

datatype body = Json (j_success: bool) (j_message: "string option") (j_data: "string option option")
  | Text string

record response =
  status :: nat
  body :: body

datatype fetched = Rejected | Got response

text \<open>
  \<open>currentUser\<close> is the module's cache, \<open>token\<close> and \<open>storage_user\<close> are the two items
  of \<open>localStorage\<close> (\<open>storage_user\<close> is \<open>None\<close> when the item is absent, empty or does
  not parse to a user object). \<open>network\<close> holds what the next calls of \<open>fetch\<close> will give,
  in order; a \<open>fetch\<close> after the last one is rejected, as it is without network.
  \<open>fetch_log\<close> records every \<open>fetch\<close> issued: url, meth and the token of its
  Authorization header.
\<close>

record session =
  currentUser :: "user option"
  token :: "string option"
  storage_user :: "user option"
  tokenRefreshTimer :: bool
  window_location :: "string option"
  network :: "fetched list"
  fetch_log :: "(string \<times> string \<times> string option) list"

definition getToken :: "session \<Rightarrow> string option" where
  "getToken a = token a"

definition setToken :: "string option \<Rightarrow> session \<Rightarrow> session" where
  \<comment> \<open>\<open>localStorage.setItem\<close> stores the string of its argument, also of \<open>undefined\<close>\<close>
  "setToken t a = a\<lparr>token := Some (case t of None \<Rightarrow> ''undefined'' | Some v \<Rightarrow> v)\<rparr>"

definition removeToken :: "session \<Rightarrow> session" where
  "removeToken a = a\<lparr>token := None\<rparr>"

definition getUser :: "session \<Rightarrow> user option \<times> session" where
  "getUser a =
     (case currentUser a of
        Some u \<Rightarrow> (Some u, a)
      | None \<Rightarrow>
          (case storage_user a of
             Some u \<Rightarrow> (Some u, a\<lparr>currentUser := Some u\<rparr>)
           | None \<Rightarrow> (None, a)))"

definition removeUser :: "session \<Rightarrow> session" where
  "removeUser a = a\<lparr>currentUser := None, storage_user := None\<rparr>"

definition stopTokenRefresh :: "session \<Rightarrow> session" where
  "stopTokenRefresh a = a\<lparr>tokenRefreshTimer := False\<rparr>"

definition isAuthenticated :: "session \<Rightarrow> bool \<times> session" where
  "isAuthenticated a =
     (let t = getToken a; (u, a1) = getUser a
      in ((case t of None \<Rightarrow> False | Some v \<Rightarrow> v \<noteq> []) \<and> u \<noteq> None, a1))"

definition hasPermission :: "string \<Rightarrow> string \<Rightarrow> session \<Rightarrow> bool \<times> session" where
  "hasPermission module action a =
     (case getUser a of
        (None, a1) \<Rightarrow> (False, a1)
      | (Some u, a1) \<Rightarrow>
          if u_role u = ROLE_ADMIN then (True, a1)
          else
            (case u_permissions u of
               None \<Rightarrow> (False, a1)
             | Some perms \<Rightarrow>
                 (case perms module of
                    None \<Rightarrow> (False, a1)
                  | Some actions \<Rightarrow> (actions action = Some (JBool True), a1))))"

section \<open>Remote gateway\<close>

datatype error = NetworkError | HttpError nat string body | SessionExpired

datatype 'a outcome = Return 'a | Throw error

definition fetch :: "string \<Rightarrow> string \<Rightarrow> string option \<Rightarrow> session \<Rightarrow> fetched \<times> session" where
  "fetch url meth auth a =
     (case network a of
        [] \<Rightarrow> (Rejected, a\<lparr>fetch_log := fetch_log a @ [(url, meth, auth)]\<rparr>)
      | r # rs \<Rightarrow> (r, a\<lparr>fetch_log := fetch_log a @ [(url, meth, auth)], network := rs\<rparr>))"

definition response_ok :: "response \<Rightarrow> bool" where
  "response_ok r = (200 \<le> status r \<and> status r \<le> 299)"

definition error_message :: "body \<Rightarrow> string" where
  \<comment> \<open>\<open>data.message || 'An error occurred'\<close>\<close>
  "error_message d =
     (case d of
        Json _ (Some m) _ \<Rightarrow> if m = [] then ''An error occurred'' else m
      | _ \<Rightarrow> ''An error occurred'')"

definition handleResponse :: "response \<Rightarrow> body outcome" where
  "handleResponse r =
     (let data = body r
      in if \<not> response_ok r then Throw (HttpError (status r) (error_message data) data)
         else Return data)"

text \<open>
  The Authorization header of a request: set only when the stored token is truthy. The
  retry sets it from whatever \<open>Auth.getToken()\<close> returns then, \<open>null\<close> included.
\<close>

definition authorization :: "session \<Rightarrow> string option" where
  "authorization a =
     (case getToken a of None \<Rightarrow> None | Some t \<Rightarrow> if t = [] then None else Some t)"

definition retry_authorization :: "session \<Rightarrow> string option" where
  "retry_authorization a = Some (case getToken a of None \<Rightarrow> ''null'' | Some t \<Rightarrow> t)"

text \<open>
  \<open>request\<close> calls \<open>Auth.logout()\<close> without awaiting it and throws; the model runs
  the logout to its end at the place of the call, which is the order in which its effects
  happen when no other request is in flight.
\<close>

function request :: "string \<Rightarrow> string \<Rightarrow> session \<Rightarrow> body outcome \<times> session"
  and refreshToken :: "session \<Rightarrow> bool \<times> session"
  and logout :: "session \<Rightarrow> session" where
  "request endpoint meth a =
     (case fetch endpoint meth (authorization a) a of
        (Rejected, a1) \<Rightarrow> (Throw NetworkError, a1)
      | (Got r, a1) \<Rightarrow>
          if status r = 401 then
            (case refreshToken a1 of
               (True, a2) \<Rightarrow>
                 (case fetch endpoint meth (retry_authorization a2) a2 of
                    (Rejected, a3) \<Rightarrow> (Throw NetworkError, a3)
                  | (Got retryResponse, a3) \<Rightarrow> (handleResponse retryResponse, a3))
             | (False, a2) \<Rightarrow> (Throw SessionExpired, logout a2))
          else (handleResponse r, a1))"
| "refreshToken a =
     (case request ''/auth/refresh-token'' ''POST'' a of
        (Return (Json True _ (Some t)), a1) \<Rightarrow> (True, setToken t a1)
      | (_, a1) \<Rightarrow> (False, a1))"
| "logout a =
     (case request ''/auth/logout'' ''POST'' a of
        (_, a1) \<Rightarrow>
          (stopTokenRefresh (removeUser (removeToken a1)))\<lparr>window_location := Some ROUTE_LOGIN\<rparr>)"
  by pat_completeness auto

text \<open>
  \<open>request\<close>, \<open>Auth.refreshToken\<close> and \<open>Auth.logout\<close> call one another: the refresh and
  the logout are themselves requests. Every round consumes an answer of the network, which
  bounds the recursion.
\<close>

lemma fetch_network_length:
  "fetch url m auth a = (r, a1) \<Longrightarrow> length (network a1) \<le> length (network a)"
  by (auto simp: fetch_def split: list.splits)

lemma fetch_Got_network_length:
  "fetch url m auth a = (Got r, a1) \<Longrightarrow> length (network a1) < length (network a)"
  by (auto simp: fetch_def split: list.splits)

lemma network_setToken [simp]: "network (setToken t a) = network a"
  by (simp add: setToken_def)

lemma network_cleared [simp]:
  "network ((stopTokenRefresh (removeUser (removeToken a)))\<lparr>window_location := l\<rparr>) = network a"
  by (simp add: stopTokenRefresh_def removeUser_def removeToken_def)

lemma network_length_dom:
  "request_refreshToken_logout_dom (Inl (endpoint, meth, a)) \<Longrightarrow>
     length (network (snd (request endpoint meth a))) \<le> length (network a)"
  "request_refreshToken_logout_dom (Inr (Inl a')) \<Longrightarrow>
     length (network (snd (refreshToken a'))) \<le> length (network a')"
  "request_refreshToken_logout_dom (Inr (Inr a'')) \<Longrightarrow>
     length (network (logout a'')) \<le> length (network a'')"
proof (induct rule: request_refreshToken_logout.pinduct)
  case (1 endpoint meth a)
  obtain f a1 where f: "fetch endpoint meth (authorization a) a = (f, a1)"
    by (cases "fetch endpoint meth (authorization a) a")
  note l1 = fetch_network_length[OF f]
  show ?case
  proof (cases f)
    case Rejected
    with 1(1) f l1 show ?thesis by (simp add: request.psimps)
  next
    case (Got r)
    show ?thesis
    proof (cases "status r = 401")
      case False
      with 1(1) f l1 Got show ?thesis by (simp add: request.psimps)
    next
      case True
      obtain b a2 where rt: "refreshToken a1 = (b, a2)"
        by (cases "refreshToken a1")
      from 1(2)[OF f[symmetric] Got True] rt
      have l2: "length (network a2) \<le> length (network a1)" by simp
      show ?thesis
      proof (cases b)
        case True
        obtain g a3 where
          g: "fetch endpoint meth (retry_authorization a2) a2 = (g, a3)"
          by (cases "fetch endpoint meth (retry_authorization a2) a2")
        note l3 = fetch_network_length[OF g]
        from 1(1) f Got \<open>status r = 401\<close> rt True g l1 l2 l3 show ?thesis
          by (cases g) (simp_all add: request.psimps)
      next
        case False
        from 1(3)[OF f[symmetric] Got \<open>status r = 401\<close> rt[symmetric]] False
        have "length (network (logout a2)) \<le> length (network a2)" by simp
        with 1(1) f Got \<open>status r = 401\<close> rt False l1 l2 show ?thesis
          by (simp add: request.psimps)
      qed
    qed
  qed
next
  case (2 a)
  obtain r a1 where r: "request ''/auth/refresh-token'' ''POST'' a = (r, a1)"
    by (cases "request ''/auth/refresh-token'' ''POST'' a")
  with 2 show ?case
    by (auto simp: refreshToken.psimps split: outcome.splits body.splits bool.splits option.splits)
next
  case (3 a)
  then show ?case
    by (auto simp: logout.psimps split: prod.splits)
qed

termination request
proof (relation "measure (\<lambda>x. case x of
                            Inl (endpoint, meth, a) \<Rightarrow> 2 * length (network a)
                          | Inr (Inl a) \<Rightarrow> 2 * length (network a) + 1
                          | Inr (Inr a) \<Rightarrow> 2 * length (network a) + 1)", goal_cases)
  case 1
  show ?case by simp
next
  case (2 endpoint meth a f a1 r)
  then show ?case
    using fetch_Got_network_length[of endpoint meth "authorization a" a r a1] by simp
next
  case (3 endpoint meth a f a1 r b a2)
  from 3(1,2) have "length (network a1) < length (network a)"
    using fetch_Got_network_length[of endpoint meth "authorization a" a r a1] by simp
  moreover from 3(4) have "snd (refreshToken a1) = a2"
    by (cases "refreshToken a1") simp
  with network_length_dom(2)[OF 3(6)] have "length (network a2) \<le> length (network a1)"
    by simp
  ultimately show ?case by simp
next
  case 4
  then show ?case by simp
next
  case 5
  then show ?case by simp
qed

declare request.simps [simp del] refreshToken.simps [simp del] logout.simps [simp del]

section \<open>HR module state\<close>

text \<open>
  The module keeps its state in closure variables (\<open>candidates\<close>, \<open>requirements\<close>,
  \<open>selectedCandidateId\<close>, \<open>currentStage\<close>, \<open>selectedFiles\<close>); the record adds what its
  handlers do to the page (toasts, loading overlay, modals, the rendered table, the handler
  installed on the rejection form) and to the network: \<open>calls\<close> is the log of the API
  calls issued so far, \<open>remote\<close> the answers the gateway will give to the next calls, in
  order. A call made when \<open>remote\<close> is used up fails, as a call without network does.
\<close>

record timeline_entry =
  t_action :: string
  t_timestamp :: string
  t_by :: string
  t_notes :: "string option"

record candidate =
  c_id :: string
  c_name :: string
  c_mobile :: string
  c_role :: string
  c_source :: string
  c_status :: string
  c_current_stage :: string
  c_requirement_id :: string
  c_timeline :: "timeline_entry list"

record requirement =
  r_id :: string
  r_role :: string
  r_vacancy_count :: nat
  r_status :: string

record cv_file =
  file_name :: string
  file_size :: nat
  file_blob :: string

record file_entry =
  e_file :: cv_file
  e_name :: string
  e_mobile :: string
  e_source :: string
  e_filename :: string

type_synonym form = "(string \<times> string) list"

datatype api_call =
    UploadCVs "cv_file list" string "(string \<times> string \<times> string) list"
  | GetRequirements string
  | GetByStage string
  | GetByRequirement string
  | UpdateTelephonic "string option" form
  | UpdateOwnerDiscussion "string option" form
  | ScheduleInterview "string option" form
  | UpdateHRInterview "string option" form
  | UpdateTests "string option" form
  | Reject "string option" form

text \<open>
  What \<open>await API...\<close> gives: the call throws, or it returns a response whose \<open>data\<close>
  is a list of candidates or of requirements, or which has no data.
\<close>

datatype payload = Candidates "candidate list" | Requirements "requirement list" | NoData

datatype api_result = Failure | Success payload

text \<open>
  The rows a caller gets from a response. From a response without data the caller gets
  \<open>undefined\<close>, which the table and the cards render as no rows; the model keeps the
  empty list in its place.
\<close>

fun candidates_of :: "payload \<Rightarrow> candidate list" where
  "candidates_of (Candidates cs) = cs"
| "candidates_of _ = []"

fun requirements_of :: "payload \<Rightarrow> requirement list" where
  "requirements_of (Requirements rs) = rs"
| "requirements_of _ = []"

record hr =
  candidates :: "candidate list"
  requirements :: "requirement list"
  selectedCandidateId :: "string option"
  currentStage :: string
  selectedFiles :: "file_entry list"
  upload_requirement :: string
  toasts :: "(string \<times> string) list"
  overlay :: "string option"
  page_modals :: "string list"
  active_modals :: "string list"
  table :: "(candidate list \<times> string) option"
  pending_cards :: "requirement list"
  rejection_onsubmit :: bool
  location :: "string option"
  uncaught :: "string list"
  calls :: "api_call list"
  remote :: "api_result list"

definition showToast :: "string \<Rightarrow> string \<Rightarrow> hr \<Rightarrow> hr" where
  "showToast message type s = s\<lparr>toasts := toasts s @ [(message, type)]\<rparr>"

definition showLoadingOverlay :: "string \<Rightarrow> hr \<Rightarrow> hr" where
  "showLoadingOverlay message s = s\<lparr>overlay := Some message\<rparr>"

definition hideLoadingOverlay :: "hr \<Rightarrow> hr" where
  "hideLoadingOverlay s = s\<lparr>overlay := None\<rparr>"

definition api :: "api_call \<Rightarrow> hr \<Rightarrow> api_result \<times> hr" where
  "api c s =
     (case remote s of
        [] \<Rightarrow> (Failure, s\<lparr>calls := calls s @ [c]\<rparr>)
      | r # rs \<Rightarrow> (r, s\<lparr>calls := calls s @ [c], remote := rs\<rparr>))"

text \<open>
  A property read \<open>obj[key]\<close> on an object literal finds the literal's own entries and,
  failing that, what every object inherits from \<open>Object.prototype\<close>.
\<close>

datatype 'a js_prop = Own 'a | Inherited | Undefined

definition object_prototype_keys :: "string list" where
  "object_prototype_keys =
     [''constructor'', ''hasOwnProperty'', ''isPrototypeOf'', ''propertyIsEnumerable'',
      ''toLocaleString'', ''toString'', ''valueOf'', ''__proto__'',
      ''__defineGetter__'', ''__defineSetter__'', ''__lookupGetter__'', ''__lookupSetter__'']"

definition js_get :: "(string \<times> 'a) list \<Rightarrow> string \<Rightarrow> 'a js_prop" where
  "js_get obj key =
     (case map_of obj key of
        Some v \<Rightarrow> Own v
      | None \<Rightarrow> if key \<in> set object_prototype_keys then Inherited else Undefined)"

section \<open>CV upload\<close>

text \<open>The callback of \<open>Array.from(files).forEach\<close> in \<open>handleFiles\<close>; a \<open>return\<close> ends the
  callback for that file only.\<close>

definition handleFile :: "cv_file \<Rightarrow> file_entry list \<times> string list \<Rightarrow> file_entry list \<times> string list" where
  "handleFile file acc =
     (case acc of (validFiles, errors) \<Rightarrow>
        if \<not> isValidFileType (file_name file) ALLOWED_CV_EXTENSIONS
        then (validFiles, errors @ [file_name file @ '': Invalid file type''])
        else if \<not> isValidFileSize (file_size file)
        then (validFiles,
              errors @ [file_name file @ '': File too large (max ''
                          @ string_of_nat (MAX_FILE_SIZE div 1024 div 1024) @ ''MB)''])
        else
          (case parseFilename (file_name file) of
             Invalid \<Rightarrow>
               (validFiles,
                errors @ [file_name file @ '': Invalid format (use Name_Mobile_Source.pdf)''])
           | Parsed name mobile source \<Rightarrow>
               (validFiles @
                  [\<lparr>e_file = file, e_name = name, e_mobile = mobile, e_source = source,
                    e_filename = file_name file\<rparr>],
                errors)))"

definition classifyFiles :: "cv_file list \<Rightarrow> file_entry list \<times> string list" where
  "classifyFiles files = fold handleFile files ([], [])"

text \<open>
  \<open>handleFiles\<close> ends with \<open>updateFileList()\<close>, which redraws the list of selected
  files from \<open>selectedFiles\<close> and changes nothing else.
\<close>

definition handleFiles :: "cv_file list \<Rightarrow> hr \<Rightarrow> hr" where
  "handleFiles files s =
     (case classifyFiles files of (validFiles, errors) \<Rightarrow>
        let s1 = fold (\<lambda>err. showToast err ''error'') errors s
        in s1\<lparr>selectedFiles := selectedFiles s1 @ validFiles\<rparr>)"

definition handleCVUpload :: "hr \<Rightarrow> hr" where
  "handleCVUpload s =
     (if selectedFiles s = [] then showToast ''Please select files to upload'' ''warning'' s
      else
        let requirementId = upload_requirement s
        in if requirementId = [] then showToast ''Please select a requirement'' ''warning'' s
           else
             let n = string_of_nat (length (selectedFiles s));
                 s1 = showLoadingOverlay (''Uploading '' @ n @ '' files...'') s;
                 files = map e_file (selectedFiles s1);
                 candidateData = map (\<lambda>f. (e_name f, e_mobile f, e_source f)) (selectedFiles s1)
             in (case api (UploadCVs files requirementId candidateData) s1 of
                   (Success _, s2) \<Rightarrow>
                     hideLoadingOverlay
                       ((showToast (n @ '' CVs uploaded successfully'') ''success'' s2)
                          \<lparr>selectedFiles := [], upload_requirement := []\<rparr>)
                 | (Failure, s2) \<Rightarrow>
                     showToast ''Failed to upload CVs'' ''error'' (hideLoadingOverlay s2)))"

section \<open>Candidates by stage\<close>

text \<open>\<open>renderCandidatesTable\<close> replaces the rows of the table by one row for each candidate
  of the list it is given; the model keeps the list and the stage it was rendered for.\<close>

definition renderCandidatesTable :: "candidate list \<Rightarrow> string \<Rightarrow> hr \<Rightarrow> hr" where
  "renderCandidatesTable candidateList stage s = s\<lparr>table := Some (candidateList, stage)\<rparr>"

definition loadCandidatesByStage :: "string \<Rightarrow> hr \<Rightarrow> hr" where
  "loadCandidatesByStage stage s =
     (let s1 = showLoadingOverlay (''Loading '' @ stage @ '' candidates...'') s
      in (case api (GetByStage stage) s1 of
            (Success d, s2) \<Rightarrow>
              hideLoadingOverlay
                (renderCandidatesTable (candidates_of d) stage
                   (s2\<lparr>candidates := candidates_of d\<rparr>))
          | (Failure, s2) \<Rightarrow>
              showToast ''Failed to load candidates'' ''error'' (hideLoadingOverlay s2)))"

definition statusClasses :: "(string \<times> string) list" where
  "statusClasses =
     [(''Pending'', ''badge-warning''),
      (''Shortlisted'', ''badge-info''),
      (''Recommended'', ''badge-primary''),
      (''Approved'', ''badge-success''),
      (''Scheduled'', ''badge-info''),
      (''Confirmed'', ''badge-success''),
      (''Completed'', ''badge-success''),
      (''Rejected'', ''badge-danger''),
      (''No Show'', ''badge-danger'')]"

text \<open>
  The class attribute of the badge: a class name, or the text of the value that
  \<open>Object.prototype\<close> holds under the key (a built-in function or object, which is truthy
  and so is not replaced by the default).
\<close>

datatype badge_class = Class string | Builtin_text string

record badge =
  badge_class :: badge_class
  badge_label :: string

definition getStatusBadge :: "string \<Rightarrow> badge" where
  "getStatusBadge st =
     (let badgeClass =
            (case js_get statusClasses st of
               Own c \<Rightarrow> if c = [] then Class ''badge-secondary'' else Class c
             | Inherited \<Rightarrow> Builtin_text st
             | Undefined \<Rightarrow> Class ''badge-secondary'')
      in \<lparr>badge_class = badgeClass, badge_label = st\<rparr>)"

section \<open>Candidate actions\<close>

definition actionModals :: "(string \<times> string) list" where
  "actionModals =
     [(''shortlist'', ''shortlist-modal''),
      (''telephonic'', ''telephonic-modal''),
      (''owner-discussion'', ''owner-discussion-modal''),
      (''schedule'', ''schedule-modal''),
      (''walkin'', ''walkin-modal''),
      (''hr-interview'', ''hr-interview-modal''),
      (''test'', ''test-modal'')]"

definition openModal :: "string \<Rightarrow> hr \<Rightarrow> hr" where
  "openModal modalId s =
     (if modalId \<in> set (page_modals s) \<and> modalId \<notin> set (active_modals s)
      then s\<lparr>active_modals := active_modals s @ [modalId]\<rparr> else s)"

definition closeModals :: "hr \<Rightarrow> hr" where
  "closeModals s = s\<lparr>active_modals := [], selectedCandidateId := None\<rparr>"

definition openActionModal :: "string \<Rightarrow> candidate \<Rightarrow> hr \<Rightarrow> hr" where
  "openActionModal modalId cand s =
     (if modalId \<notin> set (page_modals s) then s else openModal modalId s)"

text \<open>
  The click on an action button of a row: \<open>candidateId\<close> is the row's
  \<open>data-candidate-id\<close>, \<open>action\<close> the button's \<open>data-action\<close>. With an action name that
  only \<open>Object.prototype\<close> knows, \<open>modalId\<close> is a built-in and the selector built from it
  makes \<open>querySelector\<close> throw.
\<close>

definition handleCandidateAction :: "string \<Rightarrow> string \<Rightarrow> hr \<Rightarrow> hr" where
  "handleCandidateAction candidateId action s =
     (let s1 = s\<lparr>selectedCandidateId := Some candidateId\<rparr>
      in (case find (\<lambda>c. Some (c_id c) = selectedCandidateId s1) (candidates s1) of
            None \<Rightarrow> s1
          | Some cand \<Rightarrow>
              (case js_get actionModals action of
                 Own modalId \<Rightarrow> if modalId = [] then s1 else openActionModal modalId cand s1
               | Inherited \<Rightarrow> s1\<lparr>uncaught := uncaught s1 @ [''SyntaxError'']\<rparr>
               | Undefined \<Rightarrow> s1)))"

text \<open>
  The five submit handlers of the action forms have one shape; they differ in the
  messages, the API operation and the stage that is reloaded. \<open>valid\<close> is the result of
  \<open>Utils.validateForm(this)\<close>, \<open>formData\<close> the result of \<open>Utils.getFormData(this)\<close>.
\<close>

definition submitAction ::
  "string \<Rightarrow> (string option \<Rightarrow> form \<Rightarrow> api_call) \<Rightarrow> string \<Rightarrow> string \<Rightarrow> string
     \<Rightarrow> bool \<Rightarrow> form \<Rightarrow> hr \<Rightarrow> hr" where
  "submitAction loading operation done stage failed valid formData s =
     (if \<not> valid then s
      else
        let s1 = showLoadingOverlay loading s
        in (case api (operation (selectedCandidateId s1) formData) s1 of
              (Success _, s2) \<Rightarrow>
                loadCandidatesByStage stage (closeModals (showToast done ''success'' s2))
            | (Failure, s2) \<Rightarrow>
                showToast failed ''error'' (hideLoadingOverlay s2)))"

definition handleTelephonicSubmit :: "bool \<Rightarrow> form \<Rightarrow> hr \<Rightarrow> hr" where
  "handleTelephonicSubmit =
     submitAction ''Updating telephonic status...'' UpdateTelephonic
       ''Telephonic status updated'' ''Telephonic'' ''Failed to update status''"

definition handleOwnerDiscussionSubmit :: "bool \<Rightarrow> form \<Rightarrow> hr \<Rightarrow> hr" where
  "handleOwnerDiscussionSubmit =
     submitAction ''Recording owner decision...'' UpdateOwnerDiscussion
       ''Owner decision recorded'' ''Owner Discussion'' ''Failed to record decision''"

definition handleScheduleSubmit :: "bool \<Rightarrow> form \<Rightarrow> hr \<Rightarrow> hr" where
  "handleScheduleSubmit =
     submitAction ''Scheduling interview...'' ScheduleInterview
       ''Interview scheduled'' ''Schedule Interview'' ''Failed to schedule interview''"

definition handleHRInterviewSubmit :: "bool \<Rightarrow> form \<Rightarrow> hr \<Rightarrow> hr" where
  "handleHRInterviewSubmit =
     submitAction ''Recording HR interview result...'' UpdateHRInterview
       ''HR interview result recorded'' ''HR Interview'' ''Failed to record result''"

definition handleTestSubmit :: "bool \<Rightarrow> form \<Rightarrow> hr \<Rightarrow> hr" where
  "handleTestSubmit =
     submitAction ''Recording test result...'' UpdateTests
       ''Test result recorded'' ''Tests'' ''Failed to record result''"

datatype advance = Telephonic | OwnerDiscussion | Schedule | HRInterview | Tests

fun advanceSubmit :: "advance \<Rightarrow> bool \<Rightarrow> form \<Rightarrow> hr \<Rightarrow> hr" where
  "advanceSubmit Telephonic = handleTelephonicSubmit"
| "advanceSubmit OwnerDiscussion = handleOwnerDiscussionSubmit"
| "advanceSubmit Schedule = handleScheduleSubmit"
| "advanceSubmit HRInterview = handleHRInterviewSubmit"
| "advanceSubmit Tests = handleTestSubmit"

text \<open>
  \<open>openRejectionModal\<close> installs the submit handler of the rejection form;
  \<open>rejectionSubmit\<close> is that handler, run when the form is submitted.
\<close>

text \<open>
  A page that has the rejection modal has its name field and its form; the tag options
  written into the modal are page content only.
\<close>

definition openRejectionModal :: "candidate \<Rightarrow> hr \<Rightarrow> hr" where
  "openRejectionModal cand s =
     (let s1 = s\<lparr>selectedCandidateId := Some (c_id cand)\<rparr>
      in if ''rejection-modal'' \<notin> set (page_modals s1) then s1
         else (openModal ''rejection-modal'' s1)\<lparr>rejection_onsubmit := True\<rparr>)"

definition handleRejectCandidate :: "string \<Rightarrow> hr \<Rightarrow> hr" where
  "handleRejectCandidate candidateId s =
     (case find (\<lambda>c. c_id c = candidateId) (candidates s) of
        None \<Rightarrow> s
      | Some cand \<Rightarrow> openRejectionModal cand s)"

definition rejectionSubmit :: "form \<Rightarrow> hr \<Rightarrow> hr" where
  "rejectionSubmit formData s =
     (if \<not> rejection_onsubmit s then s
      else
        let s1 = showLoadingOverlay ''Rejecting candidate...'' s
        in (case api (Reject (selectedCandidateId s1) formData) s1 of
              (Success _, s2) \<Rightarrow>
                (let s3 = closeModals (showToast ''Candidate rejected'' ''success'' s2)
                 in loadCandidatesByStage (currentStage s3) s3)
            | (Failure, s2) \<Rightarrow>
                showToast ''Failed to reject candidate'' ''error'' (hideLoadingOverlay s2)))"

section \<open>Search and filter\<close>

definition handleCandidateSearch :: "string \<Rightarrow> hr \<Rightarrow> hr" where
  "handleCandidateSearch v s =
     (let searchTerm = toLowerCase v
      in if searchTerm = [] then renderCandidatesTable (candidates s) (currentStage s) s
         else
           let filtered =
                 filter (\<lambda>c. js_includes (toLowerCase (c_name c)) searchTerm
                            \<or> js_includes (c_mobile c) searchTerm
                            \<or> js_includes (toLowerCase (c_role c)) searchTerm)
                   (candidates s)
           in renderCandidatesTable filtered (currentStage s) s)"

text \<open>
  With a response that has no data, \<open>response.data.filter\<close> throws inside the \<open>try\<close>
  and the handler ends in its \<open>catch\<close>.
\<close>

definition handleRequirementFilter :: "string \<Rightarrow> hr \<Rightarrow> hr" where
  "handleRequirementFilter reqId s =
     (if reqId = [] then loadCandidatesByStage (currentStage s) s
      else
        let s1 = showLoadingOverlay ''Filtering candidates...'' s
        in (case api (GetByRequirement reqId) s1 of
              (Success NoData, s2) \<Rightarrow>
                showToast ''Failed to filter candidates'' ''error'' (hideLoadingOverlay s2)
            | (Success d, s2) \<Rightarrow>
                (let filtered = filter (\<lambda>c. c_current_stage c = currentStage s2) (candidates_of d)
                 in hideLoadingOverlay (renderCandidatesTable filtered (currentStage s2) s2))
            | (Failure, s2) \<Rightarrow>
                showToast ''Failed to filter candidates'' ''error'' (hideLoadingOverlay s2)))"

section \<open>Initialisation\<close>

definition getHRPage :: "string \<Rightarrow> string" where
  "getHRPage path =
     (if js_includes path ''review'' then ''review''
      else if js_includes path ''cv-upload'' then ''cv-upload''
      else if js_includes path ''shortlisting'' then ''shortlisting''
      else if js_includes path ''telephonic'' then ''telephonic''
      else if js_includes path ''owner-discussion'' then ''owner-discussion''
      else if js_includes path ''schedule'' then ''schedule''
      else if js_includes path ''walk-in'' then ''walk-ins''
      else if js_includes path ''hr-interview'' then ''hr-interview''
      else if js_includes path ''tests'' then ''tests''
      else ''review'')"

definition loadRequirements :: "hr \<Rightarrow> hr" where
  "loadRequirements s =
     (case api (GetRequirements ''Approved'') s of
        (Success d, s1) \<Rightarrow> s1\<lparr>requirements := requirements_of d\<rparr>
      | (Failure, s1) \<Rightarrow> s1)"

definition loadPendingRequirements :: "hr \<Rightarrow> hr" where
  "loadPendingRequirements s =
     (let s1 = showLoadingOverlay ''Loading pending requirements...'' s
      in (case api (GetRequirements ''Pending'') s1 of
            (Success d, s2) \<Rightarrow> hideLoadingOverlay (s2\<lparr>pending_cards := requirements_of d\<rparr>)
          | (Failure, s2) \<Rightarrow>
              showToast ''Failed to load pending requirements'' ''error'' (hideLoadingOverlay s2)))"

definition setupCVUpload :: "hr \<Rightarrow> hr" where
  "setupCVUpload s = s\<lparr>selectedFiles := []\<rparr>"

definition pageLoaders :: "(string \<times> (hr \<Rightarrow> hr)) list" where
  "pageLoaders =
     [(''review'', loadPendingRequirements),
      (''cv-upload'', setupCVUpload),
      (''shortlisting'', loadCandidatesByStage ''Shortlisting''),
      (''telephonic'', loadCandidatesByStage ''Telephonic''),
      (''owner-discussion'', loadCandidatesByStage ''Owner Discussion''),
      (''schedule'', loadCandidatesByStage ''Schedule Interview''),
      (''walk-ins'', loadCandidatesByStage ''Walk-in''),
      (''hr-interview'', loadCandidatesByStage ''HR Interview''),
      (''tests'', loadCandidatesByStage ''Tests'')]"

text \<open>
  \<open>init\<close>: \<open>authOk\<close> is the result of \<open>Auth.requireAuth()\<close> (which has redirected to the
  login page when it is false), \<open>a\<close> the session that \<open>Auth.getUser\<close> and
  \<open>Auth.hasPermission\<close> read, \<open>path\<close> the path of the page.
\<close>

definition init :: "bool \<Rightarrow> session \<Rightarrow> string \<Rightarrow> hr \<Rightarrow> hr" where
  "init authOk a path s =
     (if \<not> authOk then s\<lparr>location := Some ROUTE_LOGIN\<rparr>
      else
        (case fst (getUser a) of
           None \<Rightarrow> s\<lparr>uncaught := uncaught s @ [''TypeError'']\<rparr>
         | Some u \<Rightarrow>
             if u_role u \<noteq> ''hr'' \<and> u_role u \<noteq> ROLE_ADMIN
                \<and> \<not> fst (hasPermission ''candidates'' ''view'' a)
             then (showToast ''You do not have permission to access this page'' ''error'' s)
                    \<lparr>location := Some ''/pages/dashboard.html''\<rparr>
             else
               let page = getHRPage path;
                   s1 = loadRequirements (s\<lparr>currentStage := page\<rparr>)
               in (case map_of pageLoaders page of
                     Some loader \<Rightarrow> loader s1
                   | None \<Rightarrow> s1)))"

section \<open>Reference definitions\<close>

text \<open>The state of the module when its script has been loaded and nothing has happened.\<close>

definition hr0 :: hr where
  "hr0 = \<lparr>candidates = [], requirements = [], selectedCandidateId = None, currentStage = [],
          selectedFiles = [], upload_requirement = [], toasts = [], overlay = None,
          page_modals = [], active_modals = [], table = None, pending_cards = [],
          rejection_onsubmit = False, location = None, uncaught = [], calls = [],
          remote = []\<rparr>"

definition session0 :: session where
  "session0 = \<lparr>currentUser = None, token = None, storage_user = None,
               tokenRefreshTimer = False, window_location = None, network = [],
               fetch_log = []\<rparr>"

definition example_candidate :: "string \<Rightarrow> string \<Rightarrow> candidate" where
  "example_candidate cid stage =
     \<lparr>c_id = cid, c_name = ''Jane'', c_mobile = ''9876543210'', c_role = ''CRM'',
      c_source = ''Naukri'', c_status = ''Pending'', c_current_stage = stage,
      c_requirement_id = ''REQ-1'', c_timeline = []\<rparr>"

text \<open>
  The persistence call of a handler fails when the gateway answers its next call with a
  failure (or gives no answer). \<open>restage\<close> rewrites the stage recorded for every
  candidate of the in-memory list; \<open>advance_call\<close> and \<open>advance_failed\<close> name the API
  operation and the failure notice of each action form.
\<close>

definition persistence_fails :: "hr \<Rightarrow> bool" where
  "persistence_fails s = (case remote s of [] \<Rightarrow> True | r # _ \<Rightarrow> r = Failure)"

definition restage :: "(candidate \<Rightarrow> string) \<Rightarrow> hr \<Rightarrow> hr" where
  "restage g s = s\<lparr>candidates := map (\<lambda>c. c\<lparr>c_current_stage := g c\<rparr>) (candidates s)\<rparr>"

definition advance_failed :: "advance \<Rightarrow> string" where
  "advance_failed a =
     (case a of Telephonic \<Rightarrow> ''Failed to update status''
      | OwnerDiscussion \<Rightarrow> ''Failed to record decision''
      | Schedule \<Rightarrow> ''Failed to schedule interview''
      | HRInterview \<Rightarrow> ''Failed to record result''
      | Tests \<Rightarrow> ''Failed to record result'')"

definition advance_call :: "advance \<Rightarrow> string option \<Rightarrow> form \<Rightarrow> api_call" where
  "advance_call a =
     (case a of Telephonic \<Rightarrow> UpdateTelephonic
      | OwnerDiscussion \<Rightarrow> UpdateOwnerDiscussion
      | Schedule \<Rightarrow> ScheduleInterview
      | HRInterview \<Rightarrow> UpdateHRInterview
      | Tests \<Rightarrow> UpdateTests)"

definition example_page :: hr where
  "example_page =
     hr0\<lparr>candidates := [example_candidate ''C-1'' ''Rejected'', example_candidate ''C-2'' ''Selected''],
         page_modals := [''rejection-modal'', ''telephonic-modal''],
         currentStage := ''telephonic''\<rparr>"

definition example_user :: user where
  "example_user = \<lparr>u_name = ''Asha'', u_role = ''hr'', u_permissions = None\<rparr>"

text \<open>
  The endpoints the session context itself calls, and the number of times an endpoint
  has been fetched; a logged-in session and some answers of the server.
\<close>

definition auth_endpoints :: "string set" where
  "auth_endpoints = {''/auth/refresh-token'', ''/auth/logout''}"

definition fetches_of :: "string \<Rightarrow> session \<Rightarrow> nat" where
  "fetches_of endpoint a = length (filter (\<lambda>e. fst e = endpoint) (fetch_log a))"

definition refresh_accepted :: "fetched \<Rightarrow> bool" where
  "refresh_accepted x =
     (case x of
        Rejected \<Rightarrow> False
      | Got rr \<Rightarrow> response_ok rr \<and> (case body rr of Json True _ (Some _) \<Rightarrow> True | _ \<Rightarrow> False))"

definition refresh_refused :: "fetched \<Rightarrow> bool" where
  "refresh_refused x =
     (case x of
        Rejected \<Rightarrow> True
      | Got rr \<Rightarrow> status rr \<noteq> 401 \<and> \<not> refresh_accepted x)"

definition stored_token :: "string option \<Rightarrow> string" where
  "stored_token t = (case t of None \<Rightarrow> ''undefined'' | Some v \<Rightarrow> v)"

definition unauthorized :: fetched where
  "unauthorized = Got \<lparr>status = 401, body = Json False (Some ''Unauthorized'') None\<rparr>"

definition refreshed :: fetched where
  "refreshed = Got \<lparr>status = 200, body = Json True None (Some (Some ''t1''))\<rparr>"

definition answered :: fetched where
  "answered = Got \<lparr>status = 200, body = Text ''rows''\<rparr>"

definition server_error :: fetched where
  "server_error = Got \<lparr>status = 500, body = Text ''Internal Server Error''\<rparr>"

definition logged_in :: session where
  "logged_in = session0\<lparr>token := Some ''t0'', currentUser := Some example_user,
                        storage_user := Some example_user, tokenRefreshTimer := True\<rparr>"

text \<open>
  The Intake Record rule in the specification's words: the file name, without its
  extension, splits into at least three underscore-delimited segments and the second
  segment is exactly ten digits.
\<close>

definition name_segments :: "string \<Rightarrow> string list" where
  "name_segments name = split_on CHR ''_'' (strip_ext name)"

definition intake_record_rule :: "string \<Rightarrow> bool" where
  "intake_record_rule name =
     (3 \<le> length (name_segments name) \<and> ten_digits (name_segments name ! 1))"

text \<open>
  The intake rule as amended. The extension of a file is the text after the last dot of
  its name (the whole name when it has no dot). A file is accepted when its extension,
  in lower case and with its dot, is one of \<open>.pdf\<close>, \<open>.doc\<close>, \<open>.docx\<close>, its size is at
  most 5242880 bytes, its name has at least three segments and the second segment,
  trimmed, is exactly ten digits. An accepted entry carries the trimmed first segment,
  the trimmed second segment, the rest rejoined and trimmed, and the original file; a
  rejected file gets one message that names it and the first check it failed.
\<close>

definition file_extension :: "string \<Rightarrow> string" where
  "file_extension name = rev (takeWhile (\<lambda>c. c \<noteq> CHR ''.'') (rev name))"

definition extension_allowed :: "string \<Rightarrow> bool" where
  "extension_allowed name =
     (CHR ''.'' # toLowerCase (file_extension name) \<in> set [''.pdf'', ''.doc'', ''.docx''])"

definition intake_accepted :: "cv_file \<Rightarrow> bool" where
  "intake_accepted file =
     (extension_allowed (file_name file)
      \<and> file_size file \<le> 5242880
      \<and> 3 \<le> length (name_segments (file_name file))
      \<and> ten_digits (trim (name_segments (file_name file) ! 1)))"

definition intake_entry :: "cv_file \<Rightarrow> file_entry" where
  "intake_entry file =
     \<lparr>e_file = file,
      e_name = trim (name_segments (file_name file) ! 0),
      e_mobile = trim (name_segments (file_name file) ! 1),
      e_source = trim (join_with CHR ''_'' (drop 2 (name_segments (file_name file)))),
      e_filename = file_name file\<rparr>"

definition intake_reason :: "cv_file \<Rightarrow> string" where
  "intake_reason file =
     file_name file @ '': '' @
       (if \<not> extension_allowed (file_name file) then ''Invalid file type''
        else if \<not> file_size file \<le> 5242880 then ''File too large (max 5MB)''
        else ''Invalid format (use Name_Mobile_Source.pdf)'')"

definition file_key :: "cv_file \<Rightarrow> string \<times> nat" where
  "file_key f = (file_name f, file_size f)"

section \<open>Filename parsing\<close>

lemma strip_ext_extension:
  "ext \<noteq> [] \<Longrightarrow> CHR ''.'' \<notin> set ext \<Longrightarrow> strip_ext (base @ CHR ''.'' # ext) = base"
  by (induction base) auto

lemma strip_ext_no_dot: "CHR ''.'' \<notin> set f \<Longrightarrow> strip_ext f = f"
  by (induction f) auto

lemma strip_ext_trailing_dot: "strip_ext (f @ [CHR ''.'']) = f @ [CHR ''.'']"
  by (induction f) auto

text \<open>
  Claim C4, as the code has it. \<open>parseFilename\<close> removes the final extension (a last dot
  followed by at least one character; a name without a dot, or ending in a dot, is left as
  it is), splits the rest on underscores, and succeeds exactly when there are at least
  three segments and the second segment, with the white space around it trimmed, is
  exactly ten digits. The result then is the trimmed first segment as name, the trimmed
  second segment as mobile, and the remaining segments rejoined with underscores and
  trimmed as source. \<open>Jane_9876543210_Naukri.pdf\<close> parses to Jane, 9876543210, Naukri;
  \<open>Jane_123_Naukri.pdf\<close> and \<open>JaneOnly.pdf\<close> are rejected.
\<close>

theorem parseFilename_trimmed_segments:
  "(isValid (parseFilename f) \<longleftrightarrow>
      3 \<le> length (split_on CHR ''_'' (strip_ext f))
      \<and> ten_digits (trim (split_on CHR ''_'' (strip_ext f) ! 1)))
   \<and> (isValid (parseFilename f) \<longrightarrow>
        parseFilename f =
          Parsed (trim (split_on CHR ''_'' (strip_ext f) ! 0))
                 (trim (split_on CHR ''_'' (strip_ext f) ! 1))
                 (trim (join_with CHR ''_'' (drop 2 (split_on CHR ''_'' (strip_ext f))))))
   \<and> (ext \<noteq> [] \<and> CHR ''.'' \<notin> set ext \<longrightarrow> strip_ext (base @ CHR ''.'' # ext) = base)
   \<and> (CHR ''.'' \<notin> set f \<longrightarrow> strip_ext f = f)
   \<and> strip_ext (base @ [CHR ''.'']) = base @ [CHR ''.'']
   \<and> parseFilename ''Jane_9876543210_Naukri.pdf'' = Parsed ''Jane'' ''9876543210'' ''Naukri''
   \<and> parseFilename ''Jane_123_Naukri.pdf'' = Invalid
   \<and> parseFilename ''JaneOnly.pdf'' = Invalid"
proof -
  have ex1: "parseFilename ''Jane_9876543210_Naukri.pdf'' = Parsed ''Jane'' ''9876543210'' ''Naukri''"
    by code_simp
  have ex2: "parseFilename ''Jane_123_Naukri.pdf'' = Invalid"
    by code_simp
  have ex3: "parseFilename ''JaneOnly.pdf'' = Invalid"
    by code_simp
  have valid: "isValid (parseFilename f) \<longleftrightarrow>
      3 \<le> length (split_on CHR ''_'' (strip_ext f))
      \<and> ten_digits (trim (split_on CHR ''_'' (strip_ext f) ! 1))"
    by (auto simp: parseFilename_def isValid_def Let_def)
  have fields: "isValid (parseFilename f) \<longrightarrow>
        parseFilename f =
          Parsed (trim (split_on CHR ''_'' (strip_ext f) ! 0))
                 (trim (split_on CHR ''_'' (strip_ext f) ! 1))
                 (trim (join_with CHR ''_'' (drop 2 (split_on CHR ''_'' (strip_ext f)))))"
    by (auto simp: parseFilename_def isValid_def Let_def)
  show ?thesis
    using ex1 ex2 ex3 valid fields strip_ext_extension[of ext base] strip_ext_no_dot[of f]
      strip_ext_trailing_dot[of base]
    by blast
qed

theorem parseFilename_trimmed_segments_witness:
  "isValid (parseFilename ''Asha Rao_ 9876543210 _Work_India.v2.docx'')
   \<and> parseFilename ''Asha Rao_ 9876543210 _Work_India.v2.docx''
       = Parsed ''Asha Rao'' ''9876543210'' ''Work_India.v2''
   \<and> strip_ext ''Asha Rao_ 9876543210 _Work_India.v2.docx'' = ''Asha Rao_ 9876543210 _Work_India.v2''
   \<and> strip_ext ''README'' = ''README''"
proof -
  let ?f = "''Asha Rao_ 9876543210 _Work_India.v2.docx''"
  let ?base = "''Asha Rao_ 9876543210 _Work_India.v2''"
  note t = parseFilename_trimmed_segments[of ?f "''docx''" ?base]
  have e: "''docx'' \<noteq> [] \<and> CHR ''.'' \<notin> set ''docx''" by simp
  have f: "?f = ?base @ CHR ''.'' # ''docx''" by simp
  from t e have s: "strip_ext (?base @ CHR ''.'' # ''docx'') = ?base" by blast
  with f have s': "strip_ext ?f = ?base" by simp
  have segs: "3 \<le> length (split_on CHR ''_'' ?base)
      \<and> ten_digits (trim (split_on CHR ''_'' ?base ! 1))" by code_simp
  from t segs s' have v: "isValid (parseFilename ?f)" by simp
  with t have "parseFilename ?f =
      Parsed (trim (split_on CHR ''_'' (strip_ext ?f) ! 0))
             (trim (split_on CHR ''_'' (strip_ext ?f) ! 1))
             (trim (join_with CHR ''_'' (drop 2 (split_on CHR ''_'' (strip_ext ?f)))))"
    by blast
  also have "\<dots> = Parsed ''Asha Rao'' ''9876543210'' ''Work_India.v2''"
    unfolding s' by code_simp
  finally have p: "parseFilename ?f = Parsed ''Asha Rao'' ''9876543210'' ''Work_India.v2''" .
  have n: "CHR ''.'' \<notin> set ''README''" by simp
  with parseFilename_trimmed_segments[of "''README''" "''docx''" "''x''"]
  have r: "strip_ext ''README'' = ''README''" by blast
  from v p s' r show ?thesis by simp
qed

theorem parseFilename_untrimmed_counterexample:
  "isValid (parseFilename ''Jane_ 9876543210_Naukri.pdf'')
   \<and> 3 \<le> length (split_on CHR ''_'' (strip_ext ''Jane_ 9876543210_Naukri.pdf''))
   \<and> \<not> ten_digits (split_on CHR ''_'' (strip_ext ''Jane_ 9876543210_Naukri.pdf'') ! 1)
   \<and> p_mobile (parseFilename ''Jane_ 9876543210_Naukri.pdf'')
       \<noteq> split_on CHR ''_'' (strip_ext ''Jane_ 9876543210_Naukri.pdf'') ! 1"
  by code_simp

section \<open>Intake classification\<close>

lemma max_mb: "string_of_nat (MAX_FILE_SIZE div 1024 div 1024) = ''5''"
proof -
  have "MAX_FILE_SIZE div 1024 div 1024 = 5" by (simp add: MAX_FILE_SIZE_def)
  moreover have "string_of_nat 5 = ''5''" by (subst string_of_nat.simps) code_simp
  ultimately show ?thesis by simp
qed

lemma split_on_not_Nil: "split_on sep s \<noteq> []"
  by (induction s) (auto split: list.splits)

lemma split_on_no_sep: "sep \<notin> set s \<Longrightarrow> split_on sep s = [s]"
  by (induction s) auto

lemma split_on_sep: "sep \<in> set s \<Longrightarrow> \<exists>p q qs. split_on sep s = p # q # qs"
proof (induction s)
  case Nil
  then show ?case by simp
next
  case (Cons c cs)
  obtain p ps where ps: "split_on sep cs = p # ps"
    using split_on_not_Nil[of sep cs] by (cases "split_on sep cs") auto
  show ?case
  proof (cases "c = sep")
    case True
    with ps show ?thesis by simp
  next
    case False
    with Cons.prems have "sep \<in> set cs" by simp
    from Cons.IH[OF this] False show ?thesis by auto
  qed
qed

lemma last_split_on:
  "last (split_on sep s) = rev (takeWhile (\<lambda>c. c \<noteq> sep) (rev s))"
proof (induction s)
  case Nil
  show ?case by simp
next
  case (Cons c cs)
  show ?case
  proof (cases "sep \<in> set cs")
    case True
    then obtain p q qs where pq: "split_on sep cs = p # q # qs"
      using split_on_sep by blast
    from True have tw: "takeWhile (\<lambda>c. c \<noteq> sep) (rev cs @ [c]) = takeWhile (\<lambda>c. c \<noteq> sep) (rev cs)"
      by (intro takeWhile_append1[of sep]) auto
    from pq have "last (split_on sep (c # cs)) = last (split_on sep cs)"
      by simp
    with Cons.IH tw show ?thesis by simp
  next
    case False
    then have all: "takeWhile (\<lambda>c. c \<noteq> sep) (rev cs @ [c]) = rev cs @ takeWhile (\<lambda>c. c \<noteq> sep) [c]"
      by (intro takeWhile_append2) auto
    from False have "split_on sep cs = [cs]" by (rule split_on_no_sep)
    with all show ?thesis by simp
  qed
qed

lemma isValidFileType_extension:
  "isValidFileType name ALLOWED_CV_EXTENSIONS \<longleftrightarrow> extension_allowed name"
  by (simp add: isValidFileType_def extension_allowed_def file_extension_def last_split_on
      ALLOWED_CV_EXTENSIONS_def)

lemma parseFilename_segments:
  "parseFilename name =
     (if 3 \<le> length (name_segments name) \<and> ten_digits (trim (name_segments name ! 1))
      then Parsed (trim (name_segments name ! 0)) (trim (name_segments name ! 1))
             (trim (join_with CHR ''_'' (drop 2 (name_segments name))))
      else Invalid)"
  by (auto simp: parseFilename_def name_segments_def Let_def)

lemma intake_accepted_checks:
  "intake_accepted file \<longleftrightarrow>
     isValidFileType (file_name file) ALLOWED_CV_EXTENSIONS
     \<and> isValidFileSize (file_size file)
     \<and> isValid (parseFilename (file_name file))"
  by (simp add: intake_accepted_def isValidFileType_extension isValidFileSize_def
      MAX_FILE_SIZE_def parseFilename_segments isValid_def)

lemma handleFile_accepted:
  "intake_accepted file \<Longrightarrow> handleFile file (v, e) = (v @ [intake_entry file], e)"
proof -
  assume a: "intake_accepted file"
  then have p: "parseFilename (file_name file) =
      Parsed (e_name (intake_entry file)) (e_mobile (intake_entry file))
        (e_source (intake_entry file))"
    by (simp add: intake_accepted_def parseFilename_segments intake_entry_def)
  from a have t: "isValidFileType (file_name file) ALLOWED_CV_EXTENSIONS"
    and z: "isValidFileSize (file_size file)"
    by (simp_all add: intake_accepted_checks)
  show ?thesis
    unfolding handleFile_def max_mb
    by (simp add: t z p) (simp add: intake_entry_def)
qed

lemma handleFile_rejected:
  "\<not> intake_accepted file \<Longrightarrow> handleFile file (v, e) = (v, e @ [intake_reason file])"
proof -
  assume a: "\<not> intake_accepted file"
  show ?thesis
  proof (cases "isValidFileType (file_name file) ALLOWED_CV_EXTENSIONS")
    case False
    then show ?thesis
      unfolding handleFile_def max_mb
      by (simp add: intake_reason_def isValidFileType_extension)
  next
    case t: True
    show ?thesis
    proof (cases "isValidFileSize (file_size file)")
      case False
      with t show ?thesis
        unfolding handleFile_def max_mb
        by (simp add: intake_reason_def isValidFileType_extension[symmetric] isValidFileSize_def
            MAX_FILE_SIZE_def)
    next
      case z: True
      with a t have "parseFilename (file_name file) = Invalid"
        by (simp add: intake_accepted_checks isValid_def)
      with t z show ?thesis
        unfolding handleFile_def max_mb
        by (simp add: intake_reason_def isValidFileType_extension[symmetric] isValidFileSize_def
            MAX_FILE_SIZE_def)
    qed
  qed
qed

lemma fold_handleFile:
  "fold handleFile files (v, e) =
     (v @ map intake_entry (filter intake_accepted files),
      e @ map intake_reason (filter (\<lambda>f. \<not> intake_accepted f) files))"
proof (induction files arbitrary: v e)
  case Nil
  show ?case by simp
next
  case (Cons f fs)
  show ?case
  proof (cases "intake_accepted f")
    case True
    then show ?thesis by (simp add: handleFile_accepted Cons.IH)
  next
    case False
    then show ?thesis by (simp add: handleFile_rejected Cons.IH)
  qed
qed

lemma classifyFiles_eq:
  "classifyFiles files =
     (map intake_entry (filter intake_accepted files),
      map intake_reason (filter (\<lambda>f. \<not> intake_accepted f) files))"
  by (simp add: classifyFiles_def fold_handleFile)

lemma fold_showToast:
  "fold (\<lambda>err. showToast err ty) errs s = s\<lparr>toasts := toasts s @ map (\<lambda>err. (err, ty)) errs\<rparr>"
  by (induction errs arbitrary: s) (simp_all add: showToast_def)

lemma handleFiles_eq:
  "handleFiles files s =
     s\<lparr>toasts := toasts s @ map (\<lambda>err. (err, ''error'')) (snd (classifyFiles files)),
       selectedFiles := selectedFiles s @ fst (classifyFiles files)\<rparr>"
  by (cases "classifyFiles files") (simp add: handleFiles_def fold_showToast Let_def)

text \<open>
  The loop of \<open>handleFiles\<close> on five files, computed from the code: a name whose second
  segment has a space in front of its ten digits is accepted, with the trimmed digits as
  mobile; a second segment of three digits is rejected; an extension in capitals is
  allowed and a file of exactly 5242880 bytes is not too large; one byte more is; a
  \<open>.txt\<close> file has an invalid type.
\<close>

lemma classifyFiles_examples:
  "classifyFiles
     [\<lparr>file_name = ''Jane_ 9876543210_Naukri.pdf'', file_size = 1000, file_blob = ''a''\<rparr>,
      \<lparr>file_name = ''Jane_123_Naukri.pdf'', file_size = 1000, file_blob = ''b''\<rparr>,
      \<lparr>file_name = ''Ravi_9123456780_Indeed.DOCX'', file_size = 5242880, file_blob = ''c''\<rparr>,
      \<lparr>file_name = ''Ravi_9123456780_Indeed.docx'', file_size = 5242881, file_blob = ''d''\<rparr>,
      \<lparr>file_name = ''notes.txt'', file_size = 10, file_blob = ''e''\<rparr>]
   = ([\<lparr>e_file = \<lparr>file_name = ''Jane_ 9876543210_Naukri.pdf'', file_size = 1000, file_blob = ''a''\<rparr>,
        e_name = ''Jane'', e_mobile = ''9876543210'', e_source = ''Naukri'',
        e_filename = ''Jane_ 9876543210_Naukri.pdf''\<rparr>,
       \<lparr>e_file = \<lparr>file_name = ''Ravi_9123456780_Indeed.DOCX'', file_size = 5242880, file_blob = ''c''\<rparr>,
        e_name = ''Ravi'', e_mobile = ''9123456780'', e_source = ''Indeed'',
        e_filename = ''Ravi_9123456780_Indeed.DOCX''\<rparr>],
      [''Jane_123_Naukri.pdf: Invalid format (use Name_Mobile_Source.pdf)'',
       ''Ravi_9123456780_Indeed.docx: File too large (max 5MB)'',
       ''notes.txt: Invalid file type''])"
proof -
  have p: "parseFilename ''Jane_ 9876543210_Naukri.pdf'' = Parsed ''Jane'' ''9876543210'' ''Naukri''"
    "parseFilename ''Jane_123_Naukri.pdf'' = Invalid"
    "parseFilename ''Ravi_9123456780_Indeed.DOCX'' = Parsed ''Ravi'' ''9123456780'' ''Indeed''"
    by code_simp+
  have t: "isValidFileType ''Jane_ 9876543210_Naukri.pdf'' ALLOWED_CV_EXTENSIONS"
    "isValidFileType ''Jane_123_Naukri.pdf'' ALLOWED_CV_EXTENSIONS"
    "isValidFileType ''Ravi_9123456780_Indeed.DOCX'' ALLOWED_CV_EXTENSIONS"
    "isValidFileType ''Ravi_9123456780_Indeed.docx'' ALLOWED_CV_EXTENSIONS"
    "\<not> isValidFileType ''notes.txt'' ALLOWED_CV_EXTENSIONS"
    by code_simp+
  show ?thesis
    unfolding classifyFiles_def handleFile_def max_mb
    by (simp add: p t isValidFileSize_def MAX_FILE_SIZE_def)
qed

text \<open>
  Claim C5, as the code has it. \<open>handleFiles\<close> puts every file of a batch into exactly
  one of two lists. The accepted entries, in input order, are the files whose extension,
  compared in lower case, is an allowed CV extension, whose size is at most 5 MB, and
  whose name has at least three underscore-delimited segments, the second of which,
  with the white space around it trimmed, is exactly ten digits; each entry carries the
  trimmed name, mobile and source and the original file. Every other file gives one error
  message that names it. The two lists together are as long as the batch, and the
  classification of a batch is the concatenation of the classifications of its parts, so
  that one file's rejection does not change what happens to the others. The accepted
  entries are appended to \<open>selectedFiles\<close> and each message is shown as an error toast.
\<close>

theorem handleFiles_partition:
  "classifyFiles files =
     (map intake_entry (filter intake_accepted files),
      map intake_reason (filter (\<lambda>f. \<not> intake_accepted f) files))
   \<and> length (fst (classifyFiles files)) + length (snd (classifyFiles files)) = length files
   \<and> classifyFiles (xs @ ys) =
       (fst (classifyFiles xs) @ fst (classifyFiles ys),
        snd (classifyFiles xs) @ snd (classifyFiles ys))
   \<and> selectedFiles (handleFiles files s) =
       selectedFiles s @ map intake_entry (filter intake_accepted files)
   \<and> toasts (handleFiles files s) =
       toasts s @ map (\<lambda>f. (intake_reason f, ''error'')) (filter (\<lambda>f. \<not> intake_accepted f) files)
   \<and> intake_accepted \<lparr>file_name = ''Jane_ 9876543210_Naukri.pdf'', file_size = 1000, file_blob = ''a''\<rparr>
   \<and> \<not> intake_accepted \<lparr>file_name = ''Jane_123_Naukri.pdf'', file_size = 1000, file_blob = ''b''\<rparr>
   \<and> intake_accepted \<lparr>file_name = ''Ravi_9123456780_Indeed.DOCX'', file_size = 5242880, file_blob = ''c''\<rparr>
   \<and> \<not> intake_accepted \<lparr>file_name = ''Ravi_9123456780_Indeed.docx'', file_size = 5242881, file_blob = ''d''\<rparr>
   \<and> \<not> intake_accepted \<lparr>file_name = ''notes.txt'', file_size = 10, file_blob = ''e''\<rparr>
   \<and> e_mobile (intake_entry
        \<lparr>file_name = ''Jane_ 9876543210_Naukri.pdf'', file_size = 1000, file_blob = ''a''\<rparr>)
       = ''9876543210''"
proof -
  have len: "length (filter intake_accepted files)
             + length (filter (\<lambda>f. \<not> intake_accepted f) files) = length files"
    by (rule sum_length_filter_compl)
  have general: "classifyFiles files =
     (map intake_entry (filter intake_accepted files),
      map intake_reason (filter (\<lambda>f. \<not> intake_accepted f) files))
   \<and> length (fst (classifyFiles files)) + length (snd (classifyFiles files)) = length files
   \<and> classifyFiles (xs @ ys) =
       (fst (classifyFiles xs) @ fst (classifyFiles ys),
        snd (classifyFiles xs) @ snd (classifyFiles ys))
   \<and> selectedFiles (handleFiles files s) =
       selectedFiles s @ map intake_entry (filter intake_accepted files)
   \<and> toasts (handleFiles files s) =
       toasts s @ map (\<lambda>f. (intake_reason f, ''error'')) (filter (\<lambda>f. \<not> intake_accepted f) files)"
    using len by (simp add: classifyFiles_eq handleFiles_eq comp_def)
  have ext: "extension_allowed ''Jane_ 9876543210_Naukri.pdf''"
    "extension_allowed ''Jane_123_Naukri.pdf''"
    "extension_allowed ''Ravi_9123456780_Indeed.DOCX''"
    "extension_allowed ''Ravi_9123456780_Indeed.docx''"
    "\<not> extension_allowed ''notes.txt''"
    by code_simp+
  have segs: "name_segments ''Jane_ 9876543210_Naukri.pdf'' = [''Jane'', '' 9876543210'', ''Naukri'']"
    "name_segments ''Jane_123_Naukri.pdf'' = [''Jane'', ''123'', ''Naukri'']"
    "name_segments ''Ravi_9123456780_Indeed.DOCX'' = [''Ravi'', ''9123456780'', ''Indeed'']"
    by code_simp+
  have dig: "trim '' 9876543210'' = ''9876543210''" "trim ''123'' = ''123''"
    "trim ''9123456780'' = ''9123456780''" "ten_digits ''9876543210''"
    "\<not> ten_digits ''123''" "ten_digits ''9123456780''"
    by code_simp+
  have examples:
    "intake_accepted \<lparr>file_name = ''Jane_ 9876543210_Naukri.pdf'', file_size = 1000, file_blob = ''a''\<rparr>"
    "\<not> intake_accepted \<lparr>file_name = ''Jane_123_Naukri.pdf'', file_size = 1000, file_blob = ''b''\<rparr>"
    "intake_accepted \<lparr>file_name = ''Ravi_9123456780_Indeed.DOCX'', file_size = 5242880, file_blob = ''c''\<rparr>"
    "\<not> intake_accepted \<lparr>file_name = ''Ravi_9123456780_Indeed.docx'', file_size = 5242881, file_blob = ''d''\<rparr>"
    "\<not> intake_accepted \<lparr>file_name = ''notes.txt'', file_size = 10, file_blob = ''e''\<rparr>"
    "e_mobile (intake_entry
        \<lparr>file_name = ''Jane_ 9876543210_Naukri.pdf'', file_size = 1000, file_blob = ''a''\<rparr>)
       = ''9876543210''"
    by (simp_all add: intake_accepted_def intake_entry_def ext segs dig)
  from general examples show ?thesis by blast
qed

theorem handleFiles_partition_witness:
  "classifyFiles
     [\<lparr>file_name = ''Jane_ 9876543210_Naukri.pdf'', file_size = 1000, file_blob = ''a''\<rparr>,
      \<lparr>file_name = ''Jane_123_Naukri.pdf'', file_size = 1000, file_blob = ''b''\<rparr>,
      \<lparr>file_name = ''Ravi_9123456780_Indeed.DOCX'', file_size = 5242880, file_blob = ''c''\<rparr>,
      \<lparr>file_name = ''Ravi_9123456780_Indeed.docx'', file_size = 5242881, file_blob = ''d''\<rparr>,
      \<lparr>file_name = ''notes.txt'', file_size = 10, file_blob = ''e''\<rparr>]
   = (map intake_entry
        [\<lparr>file_name = ''Jane_ 9876543210_Naukri.pdf'', file_size = 1000, file_blob = ''a''\<rparr>,
         \<lparr>file_name = ''Ravi_9123456780_Indeed.DOCX'', file_size = 5242880, file_blob = ''c''\<rparr>],
      map intake_reason
        [\<lparr>file_name = ''Jane_123_Naukri.pdf'', file_size = 1000, file_blob = ''b''\<rparr>,
         \<lparr>file_name = ''Ravi_9123456780_Indeed.docx'', file_size = 5242881, file_blob = ''d''\<rparr>,
         \<lparr>file_name = ''notes.txt'', file_size = 10, file_blob = ''e''\<rparr>])
   \<and> length (fst (classifyFiles
        [\<lparr>file_name = ''Jane_ 9876543210_Naukri.pdf'', file_size = 1000, file_blob = ''a''\<rparr>,
         \<lparr>file_name = ''Jane_123_Naukri.pdf'', file_size = 1000, file_blob = ''b''\<rparr>,
         \<lparr>file_name = ''Ravi_9123456780_Indeed.DOCX'', file_size = 5242880, file_blob = ''c''\<rparr>,
         \<lparr>file_name = ''Ravi_9123456780_Indeed.docx'', file_size = 5242881, file_blob = ''d''\<rparr>,
         \<lparr>file_name = ''notes.txt'', file_size = 10, file_blob = ''e''\<rparr>])) = 2"
proof -
  let ?a = "\<lparr>file_name = ''Jane_ 9876543210_Naukri.pdf'', file_size = 1000, file_blob = ''a''\<rparr>"
  let ?b = "\<lparr>file_name = ''Jane_123_Naukri.pdf'', file_size = 1000, file_blob = ''b''\<rparr>"
  let ?c = "\<lparr>file_name = ''Ravi_9123456780_Indeed.DOCX'', file_size = 5242880, file_blob = ''c''\<rparr>"
  let ?d = "\<lparr>file_name = ''Ravi_9123456780_Indeed.docx'', file_size = 5242881, file_blob = ''d''\<rparr>"
  let ?e = "\<lparr>file_name = ''notes.txt'', file_size = 10, file_blob = ''e''\<rparr>"
  note t = handleFiles_partition[of "[?a, ?b, ?c, ?d, ?e]"]
  from t have acc: "intake_accepted ?a" "\<not> intake_accepted ?b" "intake_accepted ?c"
    "\<not> intake_accepted ?d" "\<not> intake_accepted ?e"
    by blast+
  from t have "classifyFiles [?a, ?b, ?c, ?d, ?e]
        = (map intake_entry (filter intake_accepted [?a, ?b, ?c, ?d, ?e]),
           map intake_reason (filter (\<lambda>f. \<not> intake_accepted f) [?a, ?b, ?c, ?d, ?e]))"
    by blast
  with acc have 1: "classifyFiles [?a, ?b, ?c, ?d, ?e]
        = (map intake_entry [?a, ?c], map intake_reason [?b, ?d, ?e])"
    by simp
  then have 2: "length (fst (classifyFiles [?a, ?b, ?c, ?d, ?e])) = 2" by simp
  from 1 2 show ?thesis by blast
qed

text \<open>
  The claim as it was stated fails: the Intake Record rule asks for a second segment of
  exactly ten digits, and \<open>handleFiles\<close> accepts a file whose second segment is a space
  followed by ten digits (its extension is allowed and its size is below the maximum).
\<close>

theorem handleFiles_untrimmed_mobile_counterexample:
  "classifyFiles
     [\<lparr>file_name = ''Jane_ 9876543210_Naukri.pdf'', file_size = 1000, file_blob = ''a''\<rparr>]
   = ([\<lparr>e_file = \<lparr>file_name = ''Jane_ 9876543210_Naukri.pdf'', file_size = 1000, file_blob = ''a''\<rparr>,
        e_name = ''Jane'', e_mobile = ''9876543210'', e_source = ''Naukri'',
        e_filename = ''Jane_ 9876543210_Naukri.pdf''\<rparr>], [])
   \<and> \<not> intake_record_rule ''Jane_ 9876543210_Naukri.pdf''
   \<and> name_segments ''Jane_ 9876543210_Naukri.pdf'' ! 1 = '' 9876543210''
   \<and> \<not> ten_digits (split_on CHR ''_'' ''Jane_ 9876543210_Naukri.pdf'' ! 1)"
proof -
  have p: "parseFilename ''Jane_ 9876543210_Naukri.pdf'' = Parsed ''Jane'' ''9876543210'' ''Naukri''"
    by code_simp
  have t: "isValidFileType ''Jane_ 9876543210_Naukri.pdf'' ALLOWED_CV_EXTENSIONS"
    by code_simp
  have c: "classifyFiles
     [\<lparr>file_name = ''Jane_ 9876543210_Naukri.pdf'', file_size = 1000, file_blob = ''a''\<rparr>]
   = ([\<lparr>e_file = \<lparr>file_name = ''Jane_ 9876543210_Naukri.pdf'', file_size = 1000, file_blob = ''a''\<rparr>,
        e_name = ''Jane'', e_mobile = ''9876543210'', e_source = ''Naukri'',
        e_filename = ''Jane_ 9876543210_Naukri.pdf''\<rparr>], [])"
    unfolding classifyFiles_def
    by (simp add: handleFile_def p t isValidFileSize_def MAX_FILE_SIZE_def)
  have r: "\<not> intake_record_rule ''Jane_ 9876543210_Naukri.pdf''"
    "name_segments ''Jane_ 9876543210_Naukri.pdf'' ! 1 = '' 9876543210''"
    "\<not> ten_digits (split_on CHR ''_'' ''Jane_ 9876543210_Naukri.pdf'' ! 1)"
    by code_simp+
  from c r show ?thesis by blast
qed

lemma map_filter_key_cong:
  "map k xs = map k ys \<Longrightarrow>
     map (\<lambda>x. r (k x)) (filter (\<lambda>x. P (k x)) xs) = map (\<lambda>x. r (k x)) (filter (\<lambda>x. P (k x)) ys)"
proof (induction xs arbitrary: ys)
  case Nil
  then show ?case by simp
next
  case (Cons x xs)
  then obtain y ys' where ys: "ys = y # ys'" "k x = k y" "map k xs = map k ys'"
    by (cases ys) auto
  with Cons.IH[of ys'] show ?case by simp
qed

lemma classification_by_key:
  assumes "map file_key fs = map file_key gs"
  shows "snd (classifyFiles fs) = snd (classifyFiles gs)"
    and "map (\<lambda>e. (e_name e, e_mobile e, e_source e, e_filename e)) (fst (classifyFiles fs))
          = map (\<lambda>e. (e_name e, e_mobile e, e_source e, e_filename e)) (fst (classifyFiles gs))"
    and "map intake_accepted fs = map intake_accepted gs"
proof -
  let ?P = "\<lambda>(n, sz). extension_allowed n \<and> sz \<le> (5242880::nat)
                    \<and> 3 \<le> length (name_segments n) \<and> ten_digits (trim (name_segments n ! 1))"
  have acc: "intake_accepted = (\<lambda>f. ?P (file_key f))"
    by (simp add: fun_eq_iff intake_accepted_def file_key_def)
  let ?r = "\<lambda>(n, sz). n @ '': '' @
       (if \<not> extension_allowed n then ''Invalid file type''
        else if \<not> sz \<le> (5242880::nat) then ''File too large (max 5MB)''
        else ''Invalid format (use Name_Mobile_Source.pdf)'')"
  have rea: "intake_reason = (\<lambda>f. ?r (file_key f))"
    by (simp add: fun_eq_iff intake_reason_def file_key_def)
  let ?e = "\<lambda>(n, sz::nat). (trim (name_segments n ! 0), trim (name_segments n ! 1),
                           trim (join_with CHR ''_'' (drop 2 (name_segments n))), n)"
  have ent: "map (\<lambda>e. (e_name e, e_mobile e, e_source e, e_filename e)) (fst (classifyFiles xs))
             = map (\<lambda>f. ?e (file_key f)) (filter (\<lambda>f. ?P (file_key f)) xs)" for xs
    unfolding classifyFiles_eq acc
    by (simp add: intake_entry_def file_key_def comp_def)
  from map_filter_key_cong[OF assms, of ?r "\<lambda>k. \<not> ?P k"]
  show "snd (classifyFiles fs) = snd (classifyFiles gs)"
    by (simp add: classifyFiles_eq acc rea)
  from map_filter_key_cong[OF assms, of ?e ?P]
  show "map (\<lambda>e. (e_name e, e_mobile e, e_source e, e_filename e)) (fst (classifyFiles fs))
          = map (\<lambda>e. (e_name e, e_mobile e, e_source e, e_filename e)) (fst (classifyFiles gs))"
    unfolding ent .
  from assms have "map ?P (map file_key fs) = map ?P (map file_key gs)" by simp
  then show "map intake_accepted fs = map intake_accepted gs"
    by (simp add: acc comp_def)
qed

text \<open>
  Claim C8. The partition computed by \<open>handleFiles\<close> is a function of the names and
  sizes of the files alone: two batches with the same names and sizes get the same
  messages, the same parsed entries and the same decisions, whatever the files hold;
  what is appended to \<open>selectedFiles\<close> and shown does not depend on the state of the
  module; running it again on the same batch computes the same partition again (and
  appends it again); no API call is issued and the answers of the remote side are not
  consumed.
\<close>

theorem classifyFiles_depends_on_names_and_sizes:
  "(map file_key fs = map file_key gs \<longrightarrow>
      snd (classifyFiles fs) = snd (classifyFiles gs)
      \<and> map (\<lambda>e. (e_name e, e_mobile e, e_source e, e_filename e)) (fst (classifyFiles fs))
          = map (\<lambda>e. (e_name e, e_mobile e, e_source e, e_filename e)) (fst (classifyFiles gs))
      \<and> map intake_accepted fs = map intake_accepted gs)
   \<and> selectedFiles (handleFiles fs s) = selectedFiles s @ fst (classifyFiles fs)
   \<and> toasts (handleFiles fs s) = toasts s @ map (\<lambda>err. (err, ''error'')) (snd (classifyFiles fs))
   \<and> selectedFiles (handleFiles fs (handleFiles fs s))
       = selectedFiles s @ fst (classifyFiles fs) @ fst (classifyFiles fs)
   \<and> calls (handleFiles fs s) = calls s
   \<and> remote (handleFiles fs s) = remote s
   \<and> candidates (handleFiles fs s) = candidates s"
  using classification_by_key[of fs gs]
  by (simp add: handleFiles_eq)

theorem classifyFiles_depends_on_names_and_sizes_witness:
  "snd (classifyFiles [\<lparr>file_name = ''Jane_9876543210_Naukri.pdf'', file_size = 1000, file_blob = ''a''\<rparr>,
                       \<lparr>file_name = ''notes.txt'', file_size = 10, file_blob = ''b''\<rparr>])
   = snd (classifyFiles [\<lparr>file_name = ''Jane_9876543210_Naukri.pdf'', file_size = 1000, file_blob = ''other''\<rparr>,
                         \<lparr>file_name = ''notes.txt'', file_size = 10, file_blob = ''content''\<rparr>])
   \<and> map intake_accepted [\<lparr>file_name = ''Jane_9876543210_Naukri.pdf'', file_size = 1000, file_blob = ''a''\<rparr>,
                       \<lparr>file_name = ''notes.txt'', file_size = 10, file_blob = ''b''\<rparr>]
     = map intake_accepted [\<lparr>file_name = ''Jane_9876543210_Naukri.pdf'', file_size = 1000, file_blob = ''other''\<rparr>,
                         \<lparr>file_name = ''notes.txt'', file_size = 10, file_blob = ''content''\<rparr>]"
proof -
  let ?fs = "[\<lparr>file_name = ''Jane_9876543210_Naukri.pdf'', file_size = 1000, file_blob = ''a''\<rparr>,
              \<lparr>file_name = ''notes.txt'', file_size = 10, file_blob = ''b''\<rparr>]"
  let ?gs = "[\<lparr>file_name = ''Jane_9876543210_Naukri.pdf'', file_size = 1000, file_blob = ''other''\<rparr>,
              \<lparr>file_name = ''notes.txt'', file_size = 10, file_blob = ''content''\<rparr>]"
  have k: "map file_key ?fs = map file_key ?gs" by (simp add: file_key_def)
  from classifyFiles_depends_on_names_and_sizes[of ?fs ?gs hr0] k
  show ?thesis by blast
qed

section \<open>Upload submission\<close>

text \<open>
  Claim C7. \<open>handleCVUpload\<close> with no selected file only shows the warning
  ``Please select files to upload''; with files but an empty requirement id it only shows
  the warning ``Please select a requirement''; in both cases the state is otherwise
  unchanged and no call is issued. With at least one file and a non-empty requirement id
  it issues exactly one upload call, carrying the files, the requirement id and the parsed
  candidate data. So a call is issued exactly when both are present.
\<close>

theorem handleCVUpload_validation:
  "(selectedFiles s = [] \<longrightarrow>
      handleCVUpload s = s\<lparr>toasts := toasts s @ [(''Please select files to upload'', ''warning'')]\<rparr>)
   \<and> (selectedFiles s \<noteq> [] \<and> upload_requirement s = [] \<longrightarrow>
      handleCVUpload s = s\<lparr>toasts := toasts s @ [(''Please select a requirement'', ''warning'')]\<rparr>)
   \<and> (selectedFiles s \<noteq> [] \<and> upload_requirement s \<noteq> [] \<longrightarrow>
      calls (handleCVUpload s) =
        calls s @ [UploadCVs (map e_file (selectedFiles s)) (upload_requirement s)
                     (map (\<lambda>f. (e_name f, e_mobile f, e_source f)) (selectedFiles s))])
   \<and> (calls (handleCVUpload s) \<noteq> calls s \<longleftrightarrow>
        selectedFiles s \<noteq> [] \<and> upload_requirement s \<noteq> [])"
  by (auto simp: handleCVUpload_def showToast_def api_def showLoadingOverlay_def
      hideLoadingOverlay_def Let_def split: list.splits api_result.splits)


theorem handleCVUpload_validation_witness:
  "handleCVUpload hr0 = hr0\<lparr>toasts := [(''Please select files to upload'', ''warning'')]\<rparr>
   \<and> handleCVUpload
        (hr0\<lparr>selectedFiles :=
               [\<lparr>e_file = \<lparr>file_name = ''Jane_9876543210_Naukri.pdf'', file_size = 1000, file_blob = ''a''\<rparr>,
                 e_name = ''Jane'', e_mobile = ''9876543210'', e_source = ''Naukri'',
                 e_filename = ''Jane_9876543210_Naukri.pdf''\<rparr>]\<rparr>)
       = hr0\<lparr>selectedFiles :=
               [\<lparr>e_file = \<lparr>file_name = ''Jane_9876543210_Naukri.pdf'', file_size = 1000, file_blob = ''a''\<rparr>,
                 e_name = ''Jane'', e_mobile = ''9876543210'', e_source = ''Naukri'',
                 e_filename = ''Jane_9876543210_Naukri.pdf''\<rparr>],
              toasts := [(''Please select a requirement'', ''warning'')]\<rparr>
   \<and> calls (handleCVUpload
        (hr0\<lparr>selectedFiles :=
               [\<lparr>e_file = \<lparr>file_name = ''Jane_9876543210_Naukri.pdf'', file_size = 1000, file_blob = ''a''\<rparr>,
                 e_name = ''Jane'', e_mobile = ''9876543210'', e_source = ''Naukri'',
                 e_filename = ''Jane_9876543210_Naukri.pdf''\<rparr>],
              upload_requirement := ''REQ-7''\<rparr>))
       = [UploadCVs [\<lparr>file_name = ''Jane_9876543210_Naukri.pdf'', file_size = 1000, file_blob = ''a''\<rparr>]
            ''REQ-7'' [(''Jane'', ''9876543210'', ''Naukri'')]]"
proof -
  let ?e = "\<lparr>e_file = \<lparr>file_name = ''Jane_9876543210_Naukri.pdf'', file_size = 1000, file_blob = ''a''\<rparr>,
                 e_name = ''Jane'', e_mobile = ''9876543210'', e_source = ''Naukri'',
                 e_filename = ''Jane_9876543210_Naukri.pdf''\<rparr>"
  from handleCVUpload_validation[of hr0]
  have 1: "handleCVUpload hr0 = hr0\<lparr>toasts := [(''Please select files to upload'', ''warning'')]\<rparr>"
    by (simp add: hr0_def)
  from handleCVUpload_validation[of "hr0\<lparr>selectedFiles := [?e]\<rparr>"]
  have 2: "handleCVUpload (hr0\<lparr>selectedFiles := [?e]\<rparr>)
           = hr0\<lparr>selectedFiles := [?e], toasts := [(''Please select a requirement'', ''warning'')]\<rparr>"
    by (simp add: hr0_def)
  from handleCVUpload_validation[of "hr0\<lparr>selectedFiles := [?e], upload_requirement := ''REQ-7''\<rparr>"]
  have 3: "calls (handleCVUpload (hr0\<lparr>selectedFiles := [?e], upload_requirement := ''REQ-7''\<rparr>))
       = [UploadCVs [\<lparr>file_name = ''Jane_9876543210_Naukri.pdf'', file_size = 1000, file_blob = ''a''\<rparr>]
            ''REQ-7'' [(''Jane'', ''9876543210'', ''Naukri'')]]"
    by (simp add: hr0_def)
  from 1 2 3 show ?thesis by blast
qed


section \<open>Status badge\<close>

lemma getStatusBadge_known:
  "map_of statusClasses st = Some c \<Longrightarrow> getStatusBadge st = \<lparr>badge_class = Class c, badge_label = st\<rparr>"
  by (auto simp: getStatusBadge_def js_get_def statusClasses_def split: if_splits)

lemma getStatusBadge_default:
  "map_of statusClasses st = None \<Longrightarrow> st \<notin> set object_prototype_keys \<Longrightarrow>
     getStatusBadge st = \<lparr>badge_class = Class ''badge-secondary'', badge_label = st\<rparr>"
  by (simp add: getStatusBadge_def js_get_def)

text \<open>
  Claim C9, at the status \<open>constructor\<close>. The table \<open>statusClasses\<close> has no entry for
  it, and yet the badge does not get the default class \<open>badge-secondary\<close>: the lookup
  finds what the table object inherits from \<open>Object.prototype\<close>, which is truthy, so the
  \<open>||\<close> does not fall back. A status that neither the table nor the prototype knows
  (\<open>On Hold\<close>) gets the default class, and the statuses of the table get their classes.
\<close>

theorem getStatusBadge_prototype_key:
  "map_of statusClasses ''constructor'' = None
   \<and> getStatusBadge ''constructor''
       = \<lparr>badge_class = Builtin_text ''constructor'', badge_label = ''constructor''\<rparr>
   \<and> badge_class (getStatusBadge ''constructor'') \<noteq> Class ''badge-secondary''
   \<and> getStatusBadge ''On Hold'' = \<lparr>badge_class = Class ''badge-secondary'', badge_label = ''On Hold''\<rparr>
   \<and> getStatusBadge ''Pending'' = \<lparr>badge_class = Class ''badge-warning'', badge_label = ''Pending''\<rparr>
   \<and> getStatusBadge ''Rejected'' = \<lparr>badge_class = Class ''badge-danger'', badge_label = ''Rejected''\<rparr>
   \<and> getStatusBadge ''Confirmed'' = \<lparr>badge_class = Class ''badge-success'', badge_label = ''Confirmed''\<rparr>"
  by (simp add: getStatusBadge_def js_get_def statusClasses_def object_prototype_keys_def)

section \<open>Permissions\<close>

text \<open>
  Claim C10. \<open>hasPermission(module, action)\<close> is false when there is no current user; it
  is true when the user's role is \<open>admin\<close>, whatever the permissions object holds; for
  any other user it is true exactly when the permissions object has an entry for the
  module whose entry for the action is the boolean \<open>true\<close>.
\<close>

theorem hasPermission_cases:
  "(fst (getUser a) = None \<longrightarrow> fst (hasPermission m act a) = False)
   \<and> (fst (getUser a) = Some u \<and> u_role u = ''admin'' \<longrightarrow> fst (hasPermission m act a) = True)
   \<and> (fst (getUser a) = Some u \<and> u_role u \<noteq> ''admin'' \<longrightarrow>
        fst (hasPermission m act a) =
          (\<exists>perms acts. u_permissions u = Some perms \<and> perms m = Some acts
                        \<and> acts act = Some (JBool True)))"
  by (cases "getUser a")
     (auto simp: hasPermission_def ROLE_ADMIN_def split: option.splits)

theorem hasPermission_cases_witness:
  "fst (hasPermission ''candidates'' ''view'' session0) = False
   \<and> fst (hasPermission ''candidates'' ''view''
        (session0\<lparr>storage_user := Some \<lparr>u_name = ''Root'', u_role = ''admin'', u_permissions = None\<rparr>\<rparr>)) = True
   \<and> fst (hasPermission ''candidates'' ''view''
        (session0\<lparr>currentUser := Some \<lparr>u_name = ''Asha'', u_role = ''hr'',
            u_permissions = Some [''candidates'' \<mapsto> [''view'' \<mapsto> JBool True, ''edit'' \<mapsto> JNum 1]]\<rparr>\<rparr>)) = True
   \<and> fst (hasPermission ''candidates'' ''edit''
        (session0\<lparr>currentUser := Some \<lparr>u_name = ''Asha'', u_role = ''hr'',
            u_permissions = Some [''candidates'' \<mapsto> [''view'' \<mapsto> JBool True, ''edit'' \<mapsto> JNum 1]]\<rparr>\<rparr>)) = False"
proof -
  let ?admin = "\<lparr>u_name = ''Root'', u_role = ''admin'', u_permissions = None\<rparr>"
  let ?hr = "\<lparr>u_name = ''Asha'', u_role = ''hr'',
            u_permissions = Some [''candidates'' \<mapsto> [''view'' \<mapsto> JBool True, ''edit'' \<mapsto> JNum 1]]\<rparr>"
  have g0: "fst (getUser session0) = None" by (simp add: getUser_def session0_def)
  have g1: "fst (getUser (session0\<lparr>storage_user := Some ?admin\<rparr>)) = Some ?admin"
    by (simp add: getUser_def session0_def)
  have g2: "fst (getUser (session0\<lparr>currentUser := Some ?hr\<rparr>)) = Some ?hr"
    by (simp add: getUser_def session0_def)
  from hasPermission_cases[where a = session0 and m = "''candidates''" and act = "''view''"] g0
  have 1: "fst (hasPermission ''candidates'' ''view'' session0) = False" by blast
  from hasPermission_cases[where a = "session0\<lparr>storage_user := Some ?admin\<rparr>" and u = ?admin
      and m = "''candidates''" and act = "''view''"] g1
  have 2: "fst (hasPermission ''candidates'' ''view'' (session0\<lparr>storage_user := Some ?admin\<rparr>)) = True"
    by simp
  from hasPermission_cases[where a = "session0\<lparr>currentUser := Some ?hr\<rparr>" and u = ?hr
      and m = "''candidates''" and act = "''view''"] g2
  have 3: "fst (hasPermission ''candidates'' ''view'' (session0\<lparr>currentUser := Some ?hr\<rparr>)) = True"
    by simp
  from hasPermission_cases[where a = "session0\<lparr>currentUser := Some ?hr\<rparr>" and u = ?hr
      and m = "''candidates''" and act = "''edit''"] g2
  have 4: "fst (hasPermission ''candidates'' ''edit'' (session0\<lparr>currentUser := Some ?hr\<rparr>)) = False"
    by simp
  from 1 2 3 4 show ?thesis by blast
qed


section \<open>Stage-changing actions\<close>

lemma api_fails:
  "persistence_fails s \<Longrightarrow>
     api c s = (Failure, s\<lparr>calls := calls s @ [c], remote := tl (remote s)\<rparr>)"
  by (cases "remote s") (auto simp: persistence_fails_def api_def)

lemma api_succeeds:
  "remote s = Success d # rs \<Longrightarrow> api c s = (Success d, s\<lparr>calls := calls s @ [c], remote := rs\<rparr>)"
  by (simp add: api_def)

lemma api_cases:
  "persistence_fails s \<or> (\<exists>d rs. remote s = Success d # rs)"
  by (cases "remote s") (auto simp: persistence_fails_def, metis api_result.exhaust)

lemma submitAction_failure:
  "persistence_fails s \<Longrightarrow>
     submitAction loading operation done stage failed True fd s =
       s\<lparr>overlay := None,
         toasts := toasts s @ [(failed, ''error'')],
         calls := calls s @ [operation (selectedCandidateId s) fd],
         remote := tl (remote s)\<rparr>"
proof -
  assume f: "persistence_fails s"
  then have "persistence_fails (showLoadingOverlay loading s)"
    by (simp add: persistence_fails_def showLoadingOverlay_def)
  note a = api_fails[OF this]
  show ?thesis
    by (simp add: submitAction_def Let_def a)
       (simp add: showLoadingOverlay_def hideLoadingOverlay_def showToast_def)
qed

lemma submitAction_invalid:
  "submitAction loading operation done stage failed False fd s = s"
  by (simp add: submitAction_def)

lemma loadCandidatesByStage_candidates:
  "candidates (loadCandidatesByStage stage s) =
     (case remote s of Success d # _ \<Rightarrow> candidates_of d | _ \<Rightarrow> candidates s)"
  by (cases "remote s"; cases "hd (remote s)")
     (auto simp: loadCandidatesByStage_def api_def showLoadingOverlay_def hideLoadingOverlay_def
        showToast_def renderCandidatesTable_def Let_def)

lemma submitAction_success_candidates:
  "remote s = Success d # rs \<Longrightarrow>
     candidates (submitAction loading operation done stage failed True fd s) =
       (case rs of Success d' # _ \<Rightarrow> candidates_of d' | _ \<Rightarrow> candidates s)"
proof -
  assume r: "remote s = Success d # rs"
  then have "remote (showLoadingOverlay loading s) = Success d # rs"
    by (simp add: showLoadingOverlay_def)
  note a = api_succeeds[OF this]
  show ?thesis
    by (simp add: submitAction_def Let_def a loadCandidatesByStage_candidates)
       (simp add: showLoadingOverlay_def closeModals_def showToast_def
          split: list.splits api_result.splits)
qed

lemma advanceSubmit_failure:
  "persistence_fails s \<Longrightarrow>
     advanceSubmit a True fd s =
       s\<lparr>overlay := None,
         toasts := toasts s @ [(advance_failed a, ''error'')],
         calls := calls s @ [advance_call a (selectedCandidateId s) fd],
         remote := tl (remote s)\<rparr>"
  by (cases a)
     (simp_all add: handleTelephonicSubmit_def handleOwnerDiscussionSubmit_def
        handleScheduleSubmit_def handleHRInterviewSubmit_def handleTestSubmit_def
        submitAction_failure advance_failed_def advance_call_def)

lemma advanceSubmit_invalid: "advanceSubmit a False fd s = s"
  by (cases a)
     (simp_all add: handleTelephonicSubmit_def handleOwnerDiscussionSubmit_def
        handleScheduleSubmit_def handleHRInterviewSubmit_def handleTestSubmit_def
        submitAction_invalid)

lemma advanceSubmit_success_candidates:
  "remote s = Success d # rs \<Longrightarrow>
     candidates (advanceSubmit a True fd s) =
       (case rs of Success d' # _ \<Rightarrow> candidates_of d' | _ \<Rightarrow> candidates s)"
  by (cases a)
     (simp_all add: handleTelephonicSubmit_def handleOwnerDiscussionSubmit_def
        handleScheduleSubmit_def handleHRInterviewSubmit_def handleTestSubmit_def
        submitAction_success_candidates)

text \<open>
  Claim C2. When the persistence call of an action form fails, the handler only hides
  the loading overlay and shows the failure notice: the in-memory candidate list, and so
  every candidate's stage and timeline, the selected candidate, the stage of the page and
  the rendered table are what they were before the call. The candidate list changes only
  when the form was valid, the persistence call succeeded and the reload that follows it
  succeeded, and then it is the list the reload returned.
\<close>

theorem failed_advance_leaves_state:
  "(persistence_fails s \<longrightarrow>
      advanceSubmit a True fd s =
        s\<lparr>overlay := None,
          toasts := toasts s @ [(advance_failed a, ''error'')],
          calls := calls s @ [advance_call a (selectedCandidateId s) fd],
          remote := tl (remote s)\<rparr>
      \<and> candidates (advanceSubmit a True fd s) = candidates s
      \<and> map c_current_stage (candidates (advanceSubmit a True fd s)) = map c_current_stage (candidates s)
      \<and> map c_timeline (candidates (advanceSubmit a True fd s)) = map c_timeline (candidates s)
      \<and> selectedCandidateId (advanceSubmit a True fd s) = selectedCandidateId s
      \<and> currentStage (advanceSubmit a True fd s) = currentStage s
      \<and> table (advanceSubmit a True fd s) = table s)
   \<and> (candidates (advanceSubmit a valid fd s) \<noteq> candidates s \<longrightarrow>
        valid \<and> (\<exists>d d' rs. remote s = Success d # Success d' # rs
                   \<and> candidates (advanceSubmit a valid fd s) = candidates_of d'))"
proof -
  have 1: "persistence_fails s \<longrightarrow>
      advanceSubmit a True fd s =
        s\<lparr>overlay := None,
          toasts := toasts s @ [(advance_failed a, ''error'')],
          calls := calls s @ [advance_call a (selectedCandidateId s) fd],
          remote := tl (remote s)\<rparr>
      \<and> candidates (advanceSubmit a True fd s) = candidates s
      \<and> map c_current_stage (candidates (advanceSubmit a True fd s)) = map c_current_stage (candidates s)
      \<and> map c_timeline (candidates (advanceSubmit a True fd s)) = map c_timeline (candidates s)
      \<and> selectedCandidateId (advanceSubmit a True fd s) = selectedCandidateId s
      \<and> currentStage (advanceSubmit a True fd s) = currentStage s
      \<and> table (advanceSubmit a True fd s) = table s"
    by (simp add: advanceSubmit_failure)
  have 2: "candidates (advanceSubmit a valid fd s) \<noteq> candidates s \<longrightarrow>
        valid \<and> (\<exists>d d' rs. remote s = Success d # Success d' # rs
                   \<and> candidates (advanceSubmit a valid fd s) = candidates_of d')"
  proof (intro impI)
    assume ch: "candidates (advanceSubmit a valid fd s) \<noteq> candidates s"
    then have v: valid by (cases valid) (auto simp: advanceSubmit_invalid)
    from ch v have "\<not> persistence_fails s"
      using advanceSubmit_failure[of s a fd] by auto
    with api_cases[of s] obtain d rs where r: "remote s = Success d # rs" by blast
    from advanceSubmit_success_candidates[OF r, of a fd] ch v
    obtain d' rs' where "rs = Success d' # rs'"
      by (cases rs; cases "hd rs") auto
    with r advanceSubmit_success_candidates[OF r, of a fd] v show
      "valid \<and> (\<exists>d d' rs. remote s = Success d # Success d' # rs
                   \<and> candidates (advanceSubmit a valid fd s) = candidates_of d')"
      by auto
  qed
  from 1 2 show ?thesis by blast
qed


theorem failed_advance_leaves_state_witness:
  "persistence_fails (example_page\<lparr>selectedCandidateId := Some ''C-1'', remote := [Failure]\<rparr>)
   \<and> advanceSubmit Telephonic True [(''status'', ''No Answer'')]
        (example_page\<lparr>selectedCandidateId := Some ''C-1'', remote := [Failure]\<rparr>)
       = example_page\<lparr>selectedCandidateId := Some ''C-1'',
            toasts := [(''Failed to update status'', ''error'')],
            calls := [UpdateTelephonic (Some ''C-1'') [(''status'', ''No Answer'')]],
            remote := []\<rparr>
   \<and> candidates (advanceSubmit Telephonic True [(''status'', ''No Answer'')]
        (example_page\<lparr>selectedCandidateId := Some ''C-1'', remote := [Failure]\<rparr>))
       = candidates example_page
   \<and> candidates (advanceSubmit Schedule True [(''status'', ''Confirmed'')]
        (example_page\<lparr>selectedCandidateId := Some ''C-1'',
            remote := [Success NoData, Success (Candidates [example_candidate ''C-3'' ''Walk-in''])]\<rparr>))
       = [example_candidate ''C-3'' ''Walk-in'']"
proof -
  let ?s = "example_page\<lparr>selectedCandidateId := Some ''C-1'', remote := [Failure]\<rparr>"
  let ?fd = "[(''status'', ''No Answer'')]"
  let ?s2 = "example_page\<lparr>selectedCandidateId := Some ''C-1'',
            remote := [Success NoData, Success (Candidates [example_candidate ''C-3'' ''Walk-in''])]\<rparr>"
  let ?fd2 = "[(''status'', ''Confirmed'')]"
  have pf: "persistence_fails ?s" by (simp add: persistence_fails_def)
  note t = failed_advance_leaves_state[where s = ?s and a = Telephonic and fd = ?fd and valid = True]
  from t pf have 1: "advanceSubmit Telephonic True ?fd ?s
       = ?s\<lparr>overlay := None,
          toasts := toasts ?s @ [(advance_failed Telephonic, ''error'')],
          calls := calls ?s @ [advance_call Telephonic (selectedCandidateId ?s) ?fd],
          remote := tl (remote ?s)\<rparr>"
    by blast
  have e1: "advanceSubmit Telephonic True ?fd ?s
       = example_page\<lparr>selectedCandidateId := Some ''C-1'',
            toasts := [(''Failed to update status'', ''error'')],
            calls := [UpdateTelephonic (Some ''C-1'') ?fd],
            remote := []\<rparr>"
    unfolding 1 by (simp add: example_page_def hr0_def advance_failed_def advance_call_def)
  from t pf have 2: "candidates (advanceSubmit Telephonic True ?fd ?s) = candidates ?s" by blast
  then have e2: "candidates (advanceSubmit Telephonic True ?fd ?s) = candidates example_page" by simp
  have ch: "candidates (advanceSubmit Schedule True ?fd2 ?s2) \<noteq> candidates ?s2"
    by code_simp
  note t2 = failed_advance_leaves_state[where s = ?s2 and a = Schedule and fd = ?fd2 and valid = True]
  from t2 ch obtain d d' rs where "remote ?s2 = Success d # Success d' # rs"
      "candidates (advanceSubmit Schedule True ?fd2 ?s2) = candidates_of d'"
    by blast
  then have 3: "candidates (advanceSubmit Schedule True ?fd2 ?s2) = [example_candidate ''C-3'' ''Walk-in'']"
    by auto
  from pf e1 e2 3 show ?thesis by blast
qed

lemma find_restaged:
  "find (\<lambda>c. P (c_id c)) (map (\<lambda>c. c\<lparr>c_current_stage := g c\<rparr>) cs)
     = map_option (\<lambda>c. c\<lparr>c_current_stage := g c\<rparr>) (find (\<lambda>c. P (c_id c)) cs)"
  by (induction cs) auto

lemma handleCandidateAction_found:
  "find (\<lambda>c. c_id c = cid) (candidates s) = Some c \<Longrightarrow> map_of actionModals act = Some m \<Longrightarrow>
     m \<in> set (page_modals s) \<Longrightarrow>
     handleCandidateAction cid act s = openModal m (s\<lparr>selectedCandidateId := Some cid\<rparr>)"
  by (auto simp: handleCandidateAction_def js_get_def openActionModal_def Let_def actionModals_def
      split: if_splits)

lemma handleCandidateAction_restage:
  "handleCandidateAction cid act (restage g s) = restage g (handleCandidateAction cid act s)"
proof -
  have f: "find (\<lambda>c. c_id c = cid) (map (\<lambda>c. c\<lparr>c_current_stage := g c\<rparr>) (candidates s))
      = map_option (\<lambda>c. c\<lparr>c_current_stage := g c\<rparr>) (find (\<lambda>c. c_id c = cid) (candidates s))"
    by (rule find_restaged[where P = "\<lambda>i. i = cid"])
  show ?thesis
    by (cases "find (\<lambda>c. c_id c = cid) (candidates s)")
       (auto simp: handleCandidateAction_def restage_def f Let_def openActionModal_def openModal_def
          split: js_prop.splits)
qed

lemma handleRejectCandidate_restage:
  "handleRejectCandidate cid (restage g s) = restage g (handleRejectCandidate cid s)"
proof -
  have f: "find (\<lambda>c. c_id c = cid) (map (\<lambda>c. c\<lparr>c_current_stage := g c\<rparr>) (candidates s))
      = map_option (\<lambda>c. c\<lparr>c_current_stage := g c\<rparr>) (find (\<lambda>c. c_id c = cid) (candidates s))"
    by (rule find_restaged[where P = "\<lambda>i. i = cid"])
  show ?thesis
    by (cases "find (\<lambda>c. c_id c = cid) (candidates s)")
       (auto simp: handleRejectCandidate_def restage_def f Let_def openRejectionModal_def openModal_def)
qed

lemma loadCandidatesByStage_calls:
  "calls (loadCandidatesByStage stage s) = calls s @ [GetByStage stage]"
  "uncaught (loadCandidatesByStage stage s) = uncaught s"
  by (cases "remote s"; cases "hd (remote s)";
      simp add: loadCandidatesByStage_def api_def showLoadingOverlay_def hideLoadingOverlay_def
        showToast_def renderCandidatesTable_def Let_def)+

lemma rejectionSubmit_calls:
  "rejection_onsubmit s \<Longrightarrow>
     calls (rejectionSubmit fd s) =
       calls s @ Reject (selectedCandidateId s) fd
         # (if persistence_fails s then [] else [GetByStage (currentStage s)])"
  by (cases "remote s"; cases "hd (remote s)")
     (simp_all add: rejectionSubmit_def api_def persistence_fails_def Let_def
        loadCandidatesByStage_calls showLoadingOverlay_def hideLoadingOverlay_def showToast_def
        closeModals_def)

lemma rejectionSubmit_uncaught:
  "uncaught (rejectionSubmit fd s) = uncaught s"
  by (cases "remote s"; cases "hd (remote s)")
     (simp_all add: rejectionSubmit_def api_def Let_def
        loadCandidatesByStage_calls showLoadingOverlay_def hideLoadingOverlay_def showToast_def
        closeModals_def)

lemma handleRejectCandidate_found:
  "find (\<lambda>c. c_id c = cid) (candidates s) = Some c \<Longrightarrow> ''rejection-modal'' \<in> set (page_modals s) \<Longrightarrow>
     handleRejectCandidate cid s =
       (openModal ''rejection-modal'' (s\<lparr>selectedCandidateId := Some cid\<rparr>))\<lparr>rejection_onsubmit := True\<rparr>"
  by (auto simp: handleRejectCandidate_def openRejectionModal_def Let_def dest: find_Some_iff[THEN iffD1])

text \<open>
  Claim C1, as the code has it. The module has no terminal-state check. For a candidate
  found in the in-memory list, an action button with a known action name opens that
  action's modal and the reject button opens the rejection modal, whose submission issues
  one reject call for that candidate (followed by a reload when it succeeded); none of
  this raises an error, and none of it depends on the stage recorded for the candidate:
  rewriting the stages of the list, to \<open>Selected\<close> or \<open>Rejected\<close> or anything else,
  changes nothing else in what the handlers do. A click for a candidate that is not in
  the in-memory list is ignored, with no call and no error.
\<close>

theorem actions_do_not_check_stage:
  "(find (\<lambda>c. c_id c = cid) (candidates s) = Some c \<and> map_of actionModals act = Some m
      \<and> m \<in> set (page_modals s) \<longrightarrow>
      handleCandidateAction cid act s = openModal m (s\<lparr>selectedCandidateId := Some cid\<rparr>))
   \<and> (find (\<lambda>c. c_id c = cid) (candidates s) = Some c \<and> ''rejection-modal'' \<in> set (page_modals s) \<longrightarrow>
      handleRejectCandidate cid s =
        (openModal ''rejection-modal'' (s\<lparr>selectedCandidateId := Some cid\<rparr>))\<lparr>rejection_onsubmit := True\<rparr>
      \<and> calls (rejectionSubmit fd (handleRejectCandidate cid s)) =
          calls s @ Reject (Some cid) fd
            # (if persistence_fails s then [] else [GetByStage (currentStage s)]))
   \<and> uncaught (rejectionSubmit fd s) = uncaught s
   \<and> handleCandidateAction cid act (restage g s) = restage g (handleCandidateAction cid act s)
   \<and> handleRejectCandidate cid (restage g s) = restage g (handleRejectCandidate cid s)
   \<and> (find (\<lambda>c. c_id c = cid) (candidates s) = None \<longrightarrow>
        handleCandidateAction cid act s = s\<lparr>selectedCandidateId := Some cid\<rparr>
        \<and> handleRejectCandidate cid s = s)"
proof -
  have rej: "calls (rejectionSubmit fd (handleRejectCandidate cid s)) =
          calls s @ Reject (Some cid) fd
            # (if persistence_fails s then [] else [GetByStage (currentStage s)])"
    if "find (\<lambda>c. c_id c = cid) (candidates s) = Some c" "''rejection-modal'' \<in> set (page_modals s)"
    unfolding handleRejectCandidate_found[OF that]
    by (subst rejectionSubmit_calls) (simp_all add: openModal_def persistence_fails_def)
  have none: "handleCandidateAction cid act s = s\<lparr>selectedCandidateId := Some cid\<rparr>
        \<and> handleRejectCandidate cid s = s"
    if "find (\<lambda>c. c_id c = cid) (candidates s) = None"
    using that by (simp add: handleCandidateAction_def handleRejectCandidate_def Let_def)
  show ?thesis
    using handleCandidateAction_found[of cid s c act m] handleRejectCandidate_found[of cid s c]
      rej none rejectionSubmit_uncaught[of fd s] handleCandidateAction_restage[of cid act g s]
      handleRejectCandidate_restage[of cid g s]
    by blast
qed


theorem actions_do_not_check_stage_witness:
  "handleCandidateAction ''C-2'' ''telephonic'' example_page
     = openModal ''telephonic-modal'' (example_page\<lparr>selectedCandidateId := Some ''C-2''\<rparr>)
   \<and> calls (rejectionSubmit [(''rejection_tag'', ''Test Failed'')]
              (handleRejectCandidate ''C-2'' example_page))
       = [Reject (Some ''C-2'') [(''rejection_tag'', ''Test Failed'')]]
   \<and> handleCandidateAction ''C-9'' ''telephonic'' example_page
       = example_page\<lparr>selectedCandidateId := Some ''C-9''\<rparr>
   \<and> handleRejectCandidate ''C-9'' example_page = example_page"
proof -
  let ?c = "example_candidate ''C-2'' ''Selected''"
  let ?fd = "[(''rejection_tag'', ''Test Failed'')]"
  have f: "find (\<lambda>c. c_id c = ''C-2'') (candidates example_page) = Some ?c"
    by (simp add: example_page_def hr0_def example_candidate_def)
  have m: "map_of actionModals ''telephonic'' = Some ''telephonic-modal''"
    by (simp add: actionModals_def)
  have p: "''telephonic-modal'' \<in> set (page_modals example_page)"
    "''rejection-modal'' \<in> set (page_modals example_page)"
    by (simp_all add: example_page_def hr0_def)
  have pf: "persistence_fails example_page" "calls example_page = []"
    by (simp_all add: persistence_fails_def example_page_def hr0_def)
  have n: "find (\<lambda>c. c_id c = ''C-9'') (candidates example_page) = None"
    by (simp add: example_page_def hr0_def example_candidate_def)
  note t = actions_do_not_check_stage[where s = example_page and c = ?c and cid = "''C-2''"
      and act = "''telephonic''" and m = "''telephonic-modal''" and fd = ?fd]
  note t9 = actions_do_not_check_stage[where s = example_page and c = ?c and cid = "''C-9''"
      and act = "''telephonic''" and m = "''telephonic-modal''" and fd = ?fd]
  from t f m p have 1: "handleCandidateAction ''C-2'' ''telephonic'' example_page
     = openModal ''telephonic-modal'' (example_page\<lparr>selectedCandidateId := Some ''C-2''\<rparr>)"
    by blast
  from t f p have "calls (rejectionSubmit ?fd (handleRejectCandidate ''C-2'' example_page))
       = calls example_page @ Reject (Some ''C-2'') ?fd
           # (if persistence_fails example_page then [] else [GetByStage (currentStage example_page)])"
    by blast
  with pf have 2: "calls (rejectionSubmit ?fd (handleRejectCandidate ''C-2'' example_page))
       = [Reject (Some ''C-2'') ?fd]"
    by simp
  from t9 n have 3: "handleCandidateAction ''C-9'' ''telephonic'' example_page
       = example_page\<lparr>selectedCandidateId := Some ''C-9''\<rparr>
     \<and> handleRejectCandidate ''C-9'' example_page = example_page"
    by blast
  from 1 2 3 show ?thesis by blast
qed

text \<open>
  The claim as it was stated fails: a candidate whose recorded stage is \<open>Rejected\<close> is
  rejected again, with a reject call to the gateway and a success notice, and the
  telephonic form is opened and submitted for it; nothing is refused.
\<close>

theorem rejected_candidate_rejected_again_counterexample:
  "c_current_stage (example_candidate ''C-1'' ''Rejected'') = ''Rejected''
   \<and> calls (rejectionSubmit [(''rejection_tag'', ''Shortlisting'')]
        (handleRejectCandidate ''C-1''
          (hr0\<lparr>candidates := [example_candidate ''C-1'' ''Rejected''],
               page_modals := [''rejection-modal'', ''telephonic-modal''],
               currentStage := ''shortlisting'',
               remote := [Success NoData, Success (Candidates [])]\<rparr>)))
       = [Reject (Some ''C-1'') [(''rejection_tag'', ''Shortlisting'')], GetByStage ''shortlisting'']
   \<and> toasts (rejectionSubmit [(''rejection_tag'', ''Shortlisting'')]
        (handleRejectCandidate ''C-1''
          (hr0\<lparr>candidates := [example_candidate ''C-1'' ''Rejected''],
               page_modals := [''rejection-modal'', ''telephonic-modal''],
               currentStage := ''shortlisting'',
               remote := [Success NoData, Success (Candidates [])]\<rparr>)))
       = [(''Candidate rejected'', ''success'')]
   \<and> uncaught (rejectionSubmit [(''rejection_tag'', ''Shortlisting'')]
        (handleRejectCandidate ''C-1''
          (hr0\<lparr>candidates := [example_candidate ''C-1'' ''Rejected''],
               page_modals := [''rejection-modal'', ''telephonic-modal''],
               currentStage := ''shortlisting'',
               remote := [Success NoData, Success (Candidates [])]\<rparr>))) = []
   \<and> active_modals (handleCandidateAction ''C-1'' ''telephonic''
          (hr0\<lparr>candidates := [example_candidate ''C-1'' ''Rejected''],
               page_modals := [''rejection-modal'', ''telephonic-modal''],
               currentStage := ''shortlisting'',
               remote := [Success NoData, Success (Candidates [])]\<rparr>))
       = [''telephonic-modal'']
   \<and> calls (handleTelephonicSubmit True [(''status'', ''Reject'')]
        (handleCandidateAction ''C-1'' ''telephonic''
          (hr0\<lparr>candidates := [example_candidate ''C-1'' ''Rejected''],
               page_modals := [''rejection-modal'', ''telephonic-modal''],
               currentStage := ''shortlisting'',
               remote := [Success NoData, Success (Candidates [])]\<rparr>)))
       = [UpdateTelephonic (Some ''C-1'') [(''status'', ''Reject'')], GetByStage ''Telephonic'']"
  by code_simp


section \<open>Search and requirement filter\<close>

lemma js_includes_empty [simp]: "js_includes s []"
  by (induction s) (simp_all add: starts_with_def)

lemma handleCandidateSearch_local:
  "table (handleCandidateSearch v s) =
     Some (filter (\<lambda>c. js_includes (toLowerCase (c_name c)) (toLowerCase v)
                       \<or> js_includes (c_mobile c) (toLowerCase v)
                       \<or> js_includes (toLowerCase (c_role c)) (toLowerCase v))
             (candidates s), currentStage s)"
  "calls (handleCandidateSearch v s) = calls s"
  "remote (handleCandidateSearch v s) = remote s"
  "candidates (handleCandidateSearch v s) = candidates s"
  by (simp_all add: handleCandidateSearch_def renderCandidatesTable_def Let_def)

text \<open>
  Claim C6, on the telephonic page. \<open>init\<close> stores the page key \<open>telephonic\<close> in
  \<open>currentStage\<close> and loads the candidates of the stage \<open>Telephonic\<close>. The requirement
  filter then fetches the candidates of the requirement and keeps those whose
  \<open>current_stage\<close> equals \<open>currentStage\<close>, the page key: the candidate of the
  requirement who is in the stage \<open>Telephonic\<close> is filtered out and the table is empty.
  The text search, without any call, finds that candidate by a name typed in capitals.
\<close>

theorem requirement_filter_compares_page_key:
  "currentStage
     (init True (session0\<lparr>token := Some ''t'', currentUser := Some example_user\<rparr>)
        ''/pages/hr/telephonic.html''
        (hr0\<lparr>remote := [Success (Requirements []),
                         Success (Candidates [example_candidate ''C-1'' ''Telephonic''])]\<rparr>))
     = ''telephonic''
   \<and> table
     (init True (session0\<lparr>token := Some ''t'', currentUser := Some example_user\<rparr>)
        ''/pages/hr/telephonic.html''
        (hr0\<lparr>remote := [Success (Requirements []),
                         Success (Candidates [example_candidate ''C-1'' ''Telephonic''])]\<rparr>))
     = Some ([example_candidate ''C-1'' ''Telephonic''], ''Telephonic'')
   \<and> calls
     (init True (session0\<lparr>token := Some ''t'', currentUser := Some example_user\<rparr>)
        ''/pages/hr/telephonic.html''
        (hr0\<lparr>remote := [Success (Requirements []),
                         Success (Candidates [example_candidate ''C-1'' ''Telephonic''])]\<rparr>))
     = [GetRequirements ''Approved'', GetByStage ''Telephonic'']
   \<and> table
     (handleRequirementFilter ''REQ-1''
       ((init True (session0\<lparr>token := Some ''t'', currentUser := Some example_user\<rparr>)
          ''/pages/hr/telephonic.html''
          (hr0\<lparr>remote := [Success (Requirements []),
                           Success (Candidates [example_candidate ''C-1'' ''Telephonic''])]\<rparr>))
        \<lparr>remote := [Success (Candidates [example_candidate ''C-1'' ''Telephonic''])]\<rparr>))
     = Some ([], ''telephonic'')
   \<and> c_current_stage (example_candidate ''C-1'' ''Telephonic'') = ''Telephonic''
   \<and> c_requirement_id (example_candidate ''C-1'' ''Telephonic'') = ''REQ-1''
   \<and> table
     (handleCandidateSearch ''JAN''
       (init True (session0\<lparr>token := Some ''t'', currentUser := Some example_user\<rparr>)
          ''/pages/hr/telephonic.html''
          (hr0\<lparr>remote := [Success (Requirements []),
                           Success (Candidates [example_candidate ''C-1'' ''Telephonic''])]\<rparr>)))
     = Some ([example_candidate ''C-1'' ''Telephonic''], ''telephonic'')"
  by code_simp


section \<open>Unauthorized responses\<close>

lemma fetch_log_fetch:
  "fetch url m auth a = (r, a1) \<Longrightarrow> fetch_log a1 = fetch_log a @ [(url, m, auth)]"
  by (auto simp: fetch_def split: list.splits)

lemma fetch_log_setToken [simp]: "fetch_log (setToken t a) = fetch_log a"
  by (simp add: setToken_def)

lemma fetch_log_cleared [simp]:
  "fetch_log ((stopTokenRefresh (removeUser (removeToken a)))\<lparr>window_location := l\<rparr>) = fetch_log a"
  by (simp add: stopTokenRefresh_def removeUser_def removeToken_def)

lemma request_unauthorized_refreshed:
  "fetch endpoint m (authorization a) a = (Got r, a1) \<Longrightarrow> status r = 401 \<Longrightarrow>
   refreshToken a1 = (True, a2) \<Longrightarrow>
   fetch endpoint m (retry_authorization a2) a2 = (Got r2, a3) \<Longrightarrow>
   request endpoint m a = (handleResponse r2, a3)"
  by (subst request.simps) simp

lemma request_unauthorized_refresh_failed:
  "fetch endpoint m (authorization a) a = (Got r, a1) \<Longrightarrow> status r = 401 \<Longrightarrow>
   refreshToken a1 = (False, a2) \<Longrightarrow>
   request endpoint m a = (Throw SessionExpired, logout a2)"
  by (subst request.simps) simp

lemma logout_clears:
  "token (logout a) = None \<and> currentUser (logout a) = None \<and> storage_user (logout a) = None
   \<and> tokenRefreshTimer (logout a) = False \<and> window_location (logout a) = Some ROUTE_LOGIN"
  by (subst logout.simps)+
     (simp add: stopTokenRefresh_def removeUser_def removeToken_def split: prod.splits)

lemma fetch_log_grows:
  "\<exists>new. fetch_log (snd (request endpoint m a)) = fetch_log a @ new
         \<and> length (filter (\<lambda>e. fst e \<notin> auth_endpoints) new) \<le> 2
         \<and> list_all (\<lambda>e. fst e = endpoint \<or> fst e \<in> auth_endpoints) new"
  "\<exists>new. fetch_log (snd (refreshToken a')) = fetch_log a' @ new
         \<and> list_all (\<lambda>e. fst e \<in> auth_endpoints) new"
  "\<exists>new. fetch_log (logout a'') = fetch_log a'' @ new
         \<and> list_all (\<lambda>e. fst e \<in> auth_endpoints) new"
proof (induct endpoint m a and a' and a'' rule: request_refreshToken_logout.induct)
  case (1 endpoint m a)
  obtain f a1 where f: "fetch endpoint m (authorization a) a = (f, a1)"
    by (cases "fetch endpoint m (authorization a) a")
  note l1 = fetch_log_fetch[OF f]
  show ?case
  proof (cases f)
    case Rejected
    with f l1 show ?thesis by (subst request.simps) simp
  next
    case (Got r)
    show ?thesis
    proof (cases "status r = 401")
      case False
      with f l1 Got show ?thesis by (subst request.simps) simp
    next
      case True
      obtain b a2 where rt: "refreshToken a1 = (b, a2)"
        by (cases "refreshToken a1")
      from 1(1)[OF f[symmetric] Got True] rt
      obtain new1 where n1: "fetch_log a2 = fetch_log a1 @ new1"
          "list_all (\<lambda>e. fst e \<in> auth_endpoints) new1"
        by auto
      then have z1: "filter (\<lambda>e. fst e \<notin> auth_endpoints) new1 = []"
        by (simp add: list_all_iff filter_empty_conv)
      show ?thesis
      proof (cases b)
        case True
        let ?auth = "retry_authorization a2"
        obtain g a3 where g: "fetch endpoint m ?auth a2 = (g, a3)"
          by (cases "fetch endpoint m ?auth a2")
        note l3 = fetch_log_fetch[OF g]
        have req: "snd (request endpoint m a) = a3"
          using f Got \<open>status r = 401\<close> rt True g
          by (subst request.simps) (cases g; simp)
        have "fetch_log a3 = fetch_log a @ ((endpoint, m, authorization a) # new1 @ [(endpoint, m, ?auth)])"
          using l1 n1(1) l3 by simp
        moreover have "length (filter (\<lambda>e. fst e \<notin> auth_endpoints)
                          ((endpoint, m, authorization a) # new1 @ [(endpoint, m, ?auth)])) \<le> 2"
          using z1 by simp
        moreover have "list_all (\<lambda>e. fst e = endpoint \<or> fst e \<in> auth_endpoints)
                          ((endpoint, m, authorization a) # new1 @ [(endpoint, m, ?auth)])"
          using n1(2) by (auto simp: list_all_iff)
        ultimately show ?thesis unfolding req by blast
      next
        case False
        from 1(2)[OF f[symmetric] Got \<open>status r = 401\<close> rt[symmetric]] False
        obtain new2 where n2: "fetch_log (logout a2) = fetch_log a2 @ new2"
          "list_all (\<lambda>e. fst e \<in> auth_endpoints) new2"
          by auto
        then have z2: "filter (\<lambda>e. fst e \<notin> auth_endpoints) new2 = []"
          by (simp add: list_all_iff filter_empty_conv)
        have req: "snd (request endpoint m a) = logout a2"
          using f Got \<open>status r = 401\<close> rt False
          by (subst request.simps) simp
        have "fetch_log (logout a2) = fetch_log a @ ((endpoint, m, authorization a) # new1 @ new2)"
          using l1 n1(1) n2(1) by simp
        moreover have "length (filter (\<lambda>e. fst e \<notin> auth_endpoints)
                          ((endpoint, m, authorization a) # new1 @ new2)) \<le> 2"
          using z1 z2 by simp
        moreover have "list_all (\<lambda>e. fst e = endpoint \<or> fst e \<in> auth_endpoints)
                          ((endpoint, m, authorization a) # new1 @ new2)"
          using n1(2) n2(2) by (auto simp: list_all_iff)
        ultimately show ?thesis unfolding req by blast
      qed
    qed
  qed
next
  case (2 a)
  then obtain new where n: "fetch_log (snd (request ''/auth/refresh-token'' ''POST'' a)) = fetch_log a @ new"
     "list_all (\<lambda>e. fst e = ''/auth/refresh-token'' \<or> fst e \<in> auth_endpoints) new"
    by blast
  then have "list_all (\<lambda>e. fst e \<in> auth_endpoints) new"
    by (auto simp: list_all_iff auth_endpoints_def)
  moreover have "fetch_log (snd (refreshToken a)) = fetch_log (snd (request ''/auth/refresh-token'' ''POST'' a))"
    by (subst refreshToken.simps)
       (simp split: prod.splits outcome.splits body.splits bool.splits option.splits)
  ultimately show ?case using n(1) by auto
next
  case (3 a)
  then obtain new where n: "fetch_log (snd (request ''/auth/logout'' ''POST'' a)) = fetch_log a @ new"
     "list_all (\<lambda>e. fst e = ''/auth/logout'' \<or> fst e \<in> auth_endpoints) new"
    by blast
  then have "list_all (\<lambda>e. fst e \<in> auth_endpoints) new"
    by (auto simp: list_all_iff auth_endpoints_def)
  moreover have "fetch_log (logout a) = fetch_log (snd (request ''/auth/logout'' ''POST'' a))"
    by (subst logout.simps) (simp split: prod.splits)
  ultimately show ?case using n(1) by auto
qed

lemma request_fetches_own_endpoint_twice:
  assumes "endpoint \<notin> auth_endpoints"
  shows "fetches_of endpoint (snd (request endpoint m a)) \<le> fetches_of endpoint a + 2"
proof -
  from fetch_log_grows(1)[of endpoint m a]
  obtain new where n: "fetch_log (snd (request endpoint m a)) = fetch_log a @ new"
      "length (filter (\<lambda>e. fst e \<notin> auth_endpoints) new) \<le> 2"
      "list_all (\<lambda>e. fst e = endpoint \<or> fst e \<in> auth_endpoints) new"
    by blast
  from n(3) assms have "filter (\<lambda>e. fst e = endpoint) new = filter (\<lambda>e. fst e \<notin> auth_endpoints) new"
    by (intro filter_cong) (auto simp: list_all_iff)
  with n(1,2) show ?thesis by (simp add: fetches_of_def)
qed


lemma response_ok_not_401: "response_ok rr \<Longrightarrow> status rr \<noteq> 401"
  by (simp add: response_ok_def)

lemma request_refreshed_script:
  assumes "network a = Got r # Got rr # Got retryResponse # rest" "status r = 401"
    "response_ok rr" "body rr = Json True msg (Some t)"
  shows "request endpoint m a =
           (handleResponse retryResponse,
            a\<lparr>token := Some (stored_token t), network := rest,
              fetch_log := fetch_log a @
                [(endpoint, m, authorization a),
                 (''/auth/refresh-token'', ''POST'', authorization a),
                 (endpoint, m, Some (stored_token t))]\<rparr>)"
proof -
  let ?a1 = "a\<lparr>fetch_log := fetch_log a @ [(endpoint, m, authorization a)],
               network := Got rr # Got retryResponse # rest\<rparr>"
  let ?a2 = "a\<lparr>fetch_log := fetch_log a @ [(endpoint, m, authorization a),
                 (''/auth/refresh-token'', ''POST'', authorization a)],
               network := Got retryResponse # rest\<rparr>"
  have f1: "fetch endpoint m (authorization a) a = (Got r, ?a1)"
    using assms(1) by (simp add: fetch_def)
  have au: "authorization ?a1 = authorization a"
    by (simp add: authorization_def getToken_def)
  have rq: "request ''/auth/refresh-token'' ''POST'' ?a1 = (Return (body rr), ?a2)"
    using assms(3) response_ok_not_401[OF assms(3)]
    by (subst request.simps) (simp add: fetch_def au handleResponse_def Let_def)
  have rt: "refreshToken ?a1 = (True, setToken t ?a2)"
    by (subst refreshToken.simps) (simp add: rq assms(4))
  have f2: "fetch endpoint m (retry_authorization (setToken t ?a2)) (setToken t ?a2)
            = (Got retryResponse,
               a\<lparr>token := Some (stored_token t), network := rest,
                 fetch_log := fetch_log a @
                   [(endpoint, m, authorization a),
                    (''/auth/refresh-token'', ''POST'', authorization a),
                    (endpoint, m, Some (stored_token t))]\<rparr>)"
    by (simp add: fetch_def setToken_def retry_authorization_def getToken_def stored_token_def)
  show ?thesis
    by (subst request.simps) (simp add: f1 assms(2) rt f2)
qed

lemma refreshToken_refused_script:
  assumes "network a = x # rest" "refresh_refused x"
  shows "refreshToken a =
           (False, a\<lparr>fetch_log := fetch_log a @ [(''/auth/refresh-token'', ''POST'', authorization a)],
                     network := rest\<rparr>)"
proof (cases x)
  case Rejected
  then show ?thesis using assms(1)
    by (subst refreshToken.simps, subst request.simps) (simp add: fetch_def)
next
  case (Got rr)
  with assms(2) have s: "status rr \<noteq> 401"
    and n: "\<not> (response_ok rr \<and> (case body rr of Json True _ (Some _) \<Rightarrow> True | _ \<Rightarrow> False))"
    by (simp_all add: refresh_refused_def refresh_accepted_def)
  have rq: "request ''/auth/refresh-token'' ''POST'' a =
          (handleResponse rr,
           a\<lparr>fetch_log := fetch_log a @ [(''/auth/refresh-token'', ''POST'', authorization a)],
                     network := rest\<rparr>)"
    using assms(1) Got s by (subst request.simps) (simp add: fetch_def)
  show ?thesis
    using n
    by (subst refreshToken.simps)
       (auto simp: rq handleResponse_def Let_def split: body.splits bool.splits option.splits)
qed

lemma request_refused_script:
  assumes "network a = Got r # x # rest" "status r = 401" "refresh_refused x"
  shows "request endpoint m a =
           (Throw SessionExpired,
            logout (a\<lparr>fetch_log := fetch_log a @
                        [(endpoint, m, authorization a),
                         (''/auth/refresh-token'', ''POST'', authorization a)],
                      network := rest\<rparr>))"
proof -
  let ?a1 = "a\<lparr>fetch_log := fetch_log a @ [(endpoint, m, authorization a)],
               network := x # rest\<rparr>"
  have f1: "fetch endpoint m (authorization a) a = (Got r, ?a1)"
    using assms(1) by (simp add: fetch_def)
  have au: "authorization ?a1 = authorization a"
    by (simp add: authorization_def getToken_def)
  have "network ?a1 = x # rest" by simp
  from refreshToken_refused_script[OF this assms(3)]
  have rt: "refreshToken ?a1 =
      (False, a\<lparr>fetch_log := fetch_log a @
                        [(endpoint, m, authorization a),
                         (''/auth/refresh-token'', ''POST'', authorization a)],
                      network := rest\<rparr>)"
    by (simp add: au)
  show ?thesis
    by (subst request.simps) (simp add: f1 assms(2) rt)
qed


text \<open>
  The claim as it was stated fails: when the refresh succeeds and the retry is answered
  with 401 again, the caller gets the plain HTTP error of that response; nobody is logged
  out and the page is not redirected.
\<close>

theorem request_retry_unauthorized_counterexample:
  "request ''/hr/candidates'' ''GET'' (logged_in\<lparr>network := [unauthorized, refreshed, unauthorized]\<rparr>)
     = (Throw (HttpError 401 ''Unauthorized'' (Json False (Some ''Unauthorized'') None)),
        logged_in\<lparr>token := Some ''t1'',
                  fetch_log := [(''/hr/candidates'', ''GET'', Some ''t0''),
                                (''/auth/refresh-token'', ''POST'', Some ''t0''),
                                (''/hr/candidates'', ''GET'', Some ''t1'')]\<rparr>)
   \<and> fst (request ''/hr/candidates'' ''GET'' (logged_in\<lparr>network := [unauthorized, refreshed, unauthorized]\<rparr>))
       \<noteq> Throw SessionExpired
   \<and> window_location (snd (request ''/hr/candidates'' ''GET''
          (logged_in\<lparr>network := [unauthorized, refreshed, unauthorized]\<rparr>))) = None
   \<and> currentUser (snd (request ''/hr/candidates'' ''GET''
          (logged_in\<lparr>network := [unauthorized, refreshed, unauthorized]\<rparr>))) = Some example_user"
  by (simp add: request.simps refreshToken.simps logout.simps fetch_def authorization_def retry_authorization_def getToken_def
      setToken_def handleResponse_def response_ok_def error_message_def logged_in_def
      session0_def unauthorized_def refreshed_def)

text \<open>
  Claim C3, as the code has it. When the first response is 401 and the token refresh
  succeeds (the refresh request is answered with a successful response that carries
  \<open>success\<close> and \<open>data\<close>), the new token is stored, the request is sent once more with
  it, and the response to that retry is handled like any response: its data is returned
  when it is successful, and it is thrown as an HTTP error when it is not (a second 401
  included). When the first response is 401 and the token refresh fails (the refresh
  request is rejected, or answered with anything but 401 that is not such a success; more
  generally whenever \<open>Auth.refreshToken\<close> returns false), the gateway logs out and throws
  the session-expired error; the logout removes token and user and redirects to the login
  page. A request to an endpoint other than the session's own fetches that endpoint at
  most twice.
\<close>

theorem request_unauthorized_once:
  "(network a = Got r # Got rr # Got retryResponse # rest \<and> status r = 401
      \<and> response_ok rr \<and> body rr = Json True msg (Some t)
      \<longrightarrow> request endpoint m a =
            (handleResponse retryResponse,
             a\<lparr>token := Some (stored_token t), network := rest,
               fetch_log := fetch_log a @
                 [(endpoint, m, authorization a),
                  (''/auth/refresh-token'', ''POST'', authorization a),
                  (endpoint, m, Some (stored_token t))]\<rparr>)
          \<and> (response_ok retryResponse \<longrightarrow>
                fst (request endpoint m a) = Return (body retryResponse))
          \<and> (\<not> response_ok retryResponse \<longrightarrow>
                fst (request endpoint m a) =
                  Throw (HttpError (status retryResponse) (error_message (body retryResponse))
                           (body retryResponse))))
   \<and> (network a = Got r # x # rest \<and> status r = 401 \<and> refresh_refused x
      \<longrightarrow> request endpoint m a =
            (Throw SessionExpired,
             logout (a\<lparr>fetch_log := fetch_log a @
                         [(endpoint, m, authorization a),
                          (''/auth/refresh-token'', ''POST'', authorization a)],
                       network := rest\<rparr>)))
   \<and> (fetch endpoint m (authorization a) a = (Got r, sent) \<and> status r = 401
      \<and> refreshToken sent = (True, renewed)
      \<and> fetch endpoint m (retry_authorization renewed) renewed = (Got retryResponse, resent)
      \<longrightarrow> request endpoint m a = (handleResponse retryResponse, resent))
   \<and> (fetch endpoint m (authorization a) a = (Got r, sent) \<and> status r = 401
      \<and> refreshToken sent = (False, renewed)
      \<longrightarrow> request endpoint m a = (Throw SessionExpired, logout renewed))
   \<and> token (logout b) = None \<and> currentUser (logout b) = None
   \<and> storage_user (logout b) = None \<and> window_location (logout b) = Some ROUTE_LOGIN
   \<and> (endpoint \<notin> auth_endpoints \<longrightarrow>
        fetches_of endpoint (snd (request endpoint m a)) \<le> fetches_of endpoint a + 2)"
proof -
  have script: "request endpoint m a =
            (handleResponse retryResponse,
             a\<lparr>token := Some (stored_token t), network := rest,
               fetch_log := fetch_log a @
                 [(endpoint, m, authorization a),
                  (''/auth/refresh-token'', ''POST'', authorization a),
                  (endpoint, m, Some (stored_token t))]\<rparr>)
          \<and> (response_ok retryResponse \<longrightarrow>
                fst (request endpoint m a) = Return (body retryResponse))
          \<and> (\<not> response_ok retryResponse \<longrightarrow>
                fst (request endpoint m a) =
                  Throw (HttpError (status retryResponse) (error_message (body retryResponse))
                           (body retryResponse)))"
    if "network a = Got r # Got rr # Got retryResponse # rest" "status r = 401"
      "response_ok rr" "body rr = Json True msg (Some t)"
    unfolding request_refreshed_script[OF that]
    by (simp add: handleResponse_def Let_def)
  show ?thesis
    using script request_refused_script[of a r x rest endpoint m]
      request_unauthorized_refreshed[of endpoint m a r sent renewed retryResponse resent]
      request_unauthorized_refresh_failed[of endpoint m a r sent renewed]
      logout_clears[of b] request_fetches_own_endpoint_twice[of endpoint m a]
    by blast
qed

theorem request_unauthorized_once_witness:
  "request ''/hr/candidates'' ''GET'' (logged_in\<lparr>network := [unauthorized, refreshed, answered]\<rparr>)
     = (Return (Text ''rows''),
        logged_in\<lparr>token := Some ''t1'',
                  fetch_log := [(''/hr/candidates'', ''GET'', Some ''t0''),
                                (''/auth/refresh-token'', ''POST'', Some ''t0''),
                                (''/hr/candidates'', ''GET'', Some ''t1'')]\<rparr>)
   \<and> request ''/hr/candidates'' ''GET'' (logged_in\<lparr>network := [unauthorized, server_error]\<rparr>)
     = (Throw SessionExpired,
        logout (logged_in\<lparr>fetch_log := [(''/hr/candidates'', ''GET'', Some ''t0''),
                                         (''/auth/refresh-token'', ''POST'', Some ''t0'')]\<rparr>))
   \<and> window_location (snd (request ''/hr/candidates'' ''GET''
          (logged_in\<lparr>network := [unauthorized, server_error]\<rparr>))) = Some ''/index.html''
   \<and> token (snd (request ''/hr/candidates'' ''GET''
          (logged_in\<lparr>network := [unauthorized, server_error]\<rparr>))) = None
   \<and> fetches_of ''/hr/candidates'' (snd (request ''/hr/candidates'' ''GET''
          (logged_in\<lparr>network := [unauthorized, refreshed, answered]\<rparr>))) \<le> 2"
proof -
  let ?ep = "''/hr/candidates''"
  let ?r401 = "\<lparr>status = 401, body = Json False (Some ''Unauthorized'') None\<rparr>"
  let ?rr = "\<lparr>status = 200, body = Json True None (Some (Some ''t1''))\<rparr>"
  let ?rows = "\<lparr>status = 200, body = Text ''rows''\<rparr>"
  let ?a = "logged_in\<lparr>network := [unauthorized, refreshed, answered]\<rparr>"
  let ?b = "logged_in\<lparr>network := [unauthorized, server_error]\<rparr>"
  note t = request_unauthorized_once[where endpoint = ?ep and m = "''GET''" and a = ?a
      and r = ?r401 and rr = ?rr and retryResponse = ?rows and rest = "[]" and msg = None
      and t = "Some ''t1''"]
  have na: "network ?a = [Got ?r401, Got ?rr, Got ?rows]"
    by (simp add: unauthorized_def refreshed_def answered_def)
  have ok: "status ?r401 = 401" "response_ok ?rr" "response_ok ?rows"
    "body ?rr = Json True None (Some (Some ''t1''))"
    by (simp_all add: response_ok_def)
  from t na ok have "request ?ep ''GET'' ?a =
            (handleResponse ?rows,
             ?a\<lparr>token := Some (stored_token (Some ''t1'')), network := [],
               fetch_log := fetch_log ?a @
                 [(?ep, ''GET'', authorization ?a),
                  (''/auth/refresh-token'', ''POST'', authorization ?a),
                  (?ep, ''GET'', Some (stored_token (Some ''t1'')))]\<rparr>)"
    by blast
  then have 1: "request ?ep ''GET'' ?a
     = (Return (Text ''rows''),
        logged_in\<lparr>token := Some ''t1'',
                  fetch_log := [(?ep, ''GET'', Some ''t0''),
                                (''/auth/refresh-token'', ''POST'', Some ''t0''),
                                (?ep, ''GET'', Some ''t1'')]\<rparr>)"
    by (simp add: handleResponse_def response_ok_def stored_token_def authorization_def
        getToken_def logged_in_def session0_def)
  have ne: "?ep \<notin> auth_endpoints" by (simp add: auth_endpoints_def)
  with t have "fetches_of ?ep (snd (request ?ep ''GET'' ?a)) \<le> fetches_of ?ep ?a + 2"
    by blast
  moreover have "fetches_of ?ep ?a = 0"
    by (simp add: fetches_of_def logged_in_def session0_def)
  ultimately have 4: "fetches_of ?ep (snd (request ?ep ''GET'' ?a)) \<le> 2" by simp
  note u = request_unauthorized_once[where endpoint = ?ep and m = "''GET''" and a = ?b
      and r = ?r401 and x = server_error and rest = "[]"
      and b = "logged_in\<lparr>fetch_log := [(?ep, ''GET'', Some ''t0''),
                                         (''/auth/refresh-token'', ''POST'', Some ''t0'')]\<rparr>"]
  have nb: "network ?b = [Got ?r401, server_error]" by (simp add: unauthorized_def)
  have rf: "refresh_refused server_error"
    by (simp add: refresh_refused_def refresh_accepted_def server_error_def response_ok_def)
  from u nb ok(1) rf have "request ?ep ''GET'' ?b =
            (Throw SessionExpired,
             logout (?b\<lparr>fetch_log := fetch_log ?b @
                         [(?ep, ''GET'', authorization ?b),
                          (''/auth/refresh-token'', ''POST'', authorization ?b)],
                       network := []\<rparr>))"
    by blast
  then have 2: "request ?ep ''GET'' ?b
     = (Throw SessionExpired,
        logout (logged_in\<lparr>fetch_log := [(?ep, ''GET'', Some ''t0''),
                                         (''/auth/refresh-token'', ''POST'', Some ''t0'')]\<rparr>))"
    by (simp add: authorization_def getToken_def logged_in_def session0_def)
  from u have 3: "window_location (logout (logged_in\<lparr>fetch_log := [(?ep, ''GET'', Some ''t0''),
                                         (''/auth/refresh-token'', ''POST'', Some ''t0'')]\<rparr>))
       = Some ROUTE_LOGIN"
    and 5: "token (logout (logged_in\<lparr>fetch_log := [(?ep, ''GET'', Some ''t0''),
                                         (''/auth/refresh-token'', ''POST'', Some ''t0'')]\<rparr>))
       = None"
    by blast+
  from 1 2 3 4 5 show ?thesis by (simp add: ROUTE_LOGIN_def)
qed

text \<open>
  The refresh request goes through \<open>request\<close> itself: when it is answered with 401 too,
  a further refresh is attempted, and so on for as long as the server answers 401.
\<close>

lemma refresh_unauthorized_refreshes_again:
  "map fst (fetch_log (snd (request ''/hr/candidates'' ''GET''
      (logged_in\<lparr>network := [unauthorized, unauthorized, unauthorized, refreshed]\<rparr>))))
   = [''/hr/candidates'', ''/auth/refresh-token'', ''/auth/refresh-token'',
      ''/auth/refresh-token'', ''/auth/refresh-token'', ''/auth/logout'', ''/auth/logout'']"
  by (simp add: request.simps refreshToken.simps logout.simps fetch_def authorization_def
      retry_authorization_def getToken_def setToken_def handleResponse_def response_ok_def
      error_message_def logged_in_def session0_def unauthorized_def refreshed_def Let_def
      removeToken_def removeUser_def stopTokenRefresh_def)

end
